theory Spec2Isabelle
  imports Complex_Main
begin

text \<open>
  A model of the protocol layer of MCPlex-AI: the session table and request router of the
  server, the tweet tool, the client that stands in for the server in the browser, the
  planner built on a language model with its rule-based replacement, and the loop that runs
  one conversational turn. Libraries the code calls (the MCP SDK server and transport, the
  Twitter and Gemini clients, \<open>Math.random\<close>, \<open>toLowerCase\<close>, the clock) are parameters of
  the functions that call them.
\<close>

section \<open>JavaScript values\<close>

text \<open>
  The values that travel untyped through the program (\<open>req.body.id\<close>, the \<open>any\<close>-typed
  \<open>arguments\<close> of a tool call, the \<open>args\<close> of a function call): what JSON text denotes,
  and \<open>undefined\<close>. An array or object is a finite tree, none contains itself, and there is
  no \<open>BigInt\<close>, symbol or function. Numbers are restricted to the integers.
\<close>

datatype jsval =
    JUndefined
  | JNull
  | JBool bool
  | JNum int
  | JStr string
  | JArr "jsval list"
  | JObj "(string \<times> jsval) list"

text \<open>JavaScript truthiness, as used by \<open>if (v)\<close>, \<open>v || d\<close> and \<open>a && b\<close>.\<close>

fun truthy :: "jsval \<Rightarrow> bool" where
  "truthy JUndefined = False"
| "truthy JNull = False"
| "truthy (JBool b) = b"
| "truthy (JNum n) = (n \<noteq> 0)"
| "truthy (JStr s) = (s \<noteq> [])"
| "truthy (JArr _) = True"
| "truthy (JObj _) = True"

section \<open>Server: session table and request router (src/server/index.ts)\<close>

subsection \<open>Transports and the table\<close>

text \<open>
  A \<open>StreamableHTTPServerTransport\<close> object is identified by its position in the list of
  objects created so far. The router reads its \<open>sessionId\<close>, which is \<open>undefined\<close> until the
  handshake, and writes its \<open>onclose\<close>: \<open>onclose_router\<close> tells whether calling
  \<open>transport.onclose\<close> still calls the function the router stored there.
\<close>

type_synonym transport_ref = nat

record transport =
  sessionId :: "string option"
  onclose_router :: bool

text \<open>
  \<open>const transports: TransportMap = {}\<close> is an object literal: reading \<open>transports[k]\<close>
  yields the own property \<open>k\<close> when there is one and otherwise whatever \<open>Object.prototype\<close>
  holds under \<open>k\<close>. Every member of \<open>Object.prototype\<close> is a function or an object, hence
  truthy, and none is a transport.
\<close>

definition object_prototype_keys :: "string list" where
  "object_prototype_keys =
     [''constructor'', ''__defineGetter__'', ''__defineSetter__'', ''hasOwnProperty'',
      ''__lookupGetter__'', ''__lookupSetter__'', ''isPrototypeOf'', ''propertyIsEnumerable'',
      ''toString'', ''valueOf'', ''__proto__'', ''toLocaleString'']"

datatype slot = Own transport_ref | Inherited

definition transports_get :: "(string \<rightharpoonup> transport_ref) \<Rightarrow> string \<Rightarrow> slot option" where
  "transports_get m k =
     (case m k of
        Some r \<Rightarrow> Some (Own r)
      | None \<Rightarrow> if k \<in> set object_prototype_keys then Some Inherited else None)"

record server_state =
  transports :: "string \<rightharpoonup> transport_ref"
  objects :: "transport list"

definition initial_state :: server_state where
  "initial_state = \<lparr>transports = Map.empty, objects = []\<rparr>"

subsection \<open>Requests and responses\<close>

text \<open>
  Of a request the router reads the header \<open>mcp-session-id\<close> and, of the parsed body,
  \<open>method\<close> and \<open>id\<close> (both \<open>JUndefined\<close> when the body has no such member). A \<open>body\<close> of
  \<open>None\<close> is a falsy \<open>req.body\<close>.
\<close>

record req_body =
  b_method :: jsval
  b_id :: jsval

record request =
  mcp_session_id :: "string option"
  body :: "req_body option"

text \<open>
  What \<open>server.connect(transport)\<close> and \<open>transport.handleRequest\<close> do is decided inside the
  MCP SDK, which is not part of the repository: both are parameters of the handlers.

  \<open>server.connect\<close> receives the transport after the router has stored its function in
  \<open>transport.onclose\<close>. It resolves and a closing transport still calls that function
  (\<open>Chained\<close>), or it resolves having stored a function of its own in its place (\<open>Replaced\<close>),
  or it rejects (\<open>Rejected\<close>).

  \<open>handleRequest\<close> reaches the router's state only through the functions the router handed
  over:
  \<^item> \<open>Handshake sid\<close>: the request was taken as the initialize handshake;
    \<open>sessionIdGenerator()\<close>, here \<open>randomUUID()\<close>, returned \<open>sid\<close>, which was stored in
    \<open>transport.sessionId\<close>, passed to \<open>onsessioninitialized\<close> and written into the header
    \<open>Mcp-Session-Id\<close> of the reply. A transport performs the handshake once: one that has a
    \<open>sessionId\<close> answers with an error and calls nothing;
  \<^item> \<open>Answered\<close>: a reply was written and nothing of the router's was called;
  \<^item> \<open>Closing\<close>: the transport was closed (a DELETE), so \<open>transport.onclose\<close> was called;
  \<^item> \<open>Throwing sent\<close>: \<open>handleRequest\<close> threw, \<open>sent\<close> being \<open>res.headersSent\<close> then.
\<close>

datatype connect_effect = Chained | Replaced | Rejected

datatype sdk_effect = Handshake string | Answered | Closing | Throwing bool

text \<open>
  A reply is an error of the router's, a text of the router's, what the transport wrote, or
  none at all: when \<open>server.connect\<close> rejects, the handler's promise rejects outside its
  \<open>try\<close> block and nothing in the handler answers the request.
\<close>

datatype reply =
    JsonRpcError nat int string jsval
  | PlainText nat string
  | BySdk transport_ref sdk_effect
  | Unanswered

text \<open>
  \<open>session_header\<close> is the \<open>MCP-Session-ID\<close> header of the response, set by the router (line
  327) or by the transport in its reply to the handshake; \<open>handled_by\<close> records the transport
  whose \<open>handleRequest\<close> was called, if any.
\<close>

record response =
  session_header :: "string option"
  handled_by :: "transport_ref option"
  reply :: reply

subsection \<open>The callbacks of a transport\<close>

text \<open>\<open>onsessioninitialized: (sid) => { transports[sid] = transport }\<close>, after the SDK has
  stored \<open>sid\<close> in the transport.\<close>

definition onsessioninitialized :: "transport_ref \<Rightarrow> string \<Rightarrow> server_state \<Rightarrow> server_state" where
  "onsessioninitialized r sid s =
     s\<lparr>transports := (transports s)(sid \<mapsto> r),
       objects := (objects s)[r := (objects s ! r)\<lparr>sessionId := Some sid\<rparr>]\<rparr>"

text \<open>\<open>transport.onclose = () => { if (transport.sessionId) delete transports[transport.sessionId] }\<close>\<close>

definition onclose :: "transport_ref \<Rightarrow> server_state \<Rightarrow> server_state" where
  "onclose r s =
     (if r < length (objects s) then
        (case sessionId (objects s ! r) of
           Some sid \<Rightarrow> if sid \<noteq> [] then s\<lparr>transports := (transports s)(sid := None)\<rparr> else s
         | None \<Rightarrow> s)
      else s)"

text \<open>
  Transport \<open>r\<close> closes: \<open>transport.onclose\<close> is called, which is the router's function only
  if \<open>server.connect\<close> left it there.
\<close>

definition transport_closes :: "transport_ref \<Rightarrow> server_state \<Rightarrow> server_state" where
  "transport_closes r s =
     (if r < length (objects s) \<and> onclose_router (objects s ! r) then onclose r s else s)"

text \<open>
  Whether transport \<open>r\<close> performs the handshake \<open>e\<close> offers: it has no identifier yet, and the
  generator's result is not empty.
\<close>

fun handshakes :: "transport_ref \<Rightarrow> sdk_effect \<Rightarrow> server_state \<Rightarrow> string option" where
  "handshakes r (Handshake sid) s =
     (if r < length (objects s) \<and> sessionId (objects s ! r) = None \<and> sid \<noteq> []
      then Some sid else None)"
| "handshakes r Answered s = None"
| "handshakes r Closing s = None"
| "handshakes r (Throwing sent) s = None"

text \<open>The state after \<open>handleRequest\<close> of transport \<open>r\<close> had the effect \<open>e\<close>.\<close>

fun sdk_apply :: "transport_ref \<Rightarrow> sdk_effect \<Rightarrow> server_state \<Rightarrow> server_state" where
  "sdk_apply r (Handshake sid) s =
     (case handshakes r (Handshake sid) s of
        Some i \<Rightarrow> onsessioninitialized r i s
      | None \<Rightarrow> s)"
| "sdk_apply r Answered s = s"
| "sdk_apply r Closing s = transport_closes r s"
| "sdk_apply r (Throwing sent) s = s"

text \<open>
  The session header of the response once \<open>handleRequest\<close> of transport \<open>r\<close> had the effect
  \<open>e\<close>: the transport writes the identifier into the header of its reply to the handshake,
  and otherwise the header is \<open>hdr\<close>, what the router set before the call.
\<close>

definition reply_header :: "string option \<Rightarrow> transport_ref \<Rightarrow> sdk_effect \<Rightarrow> server_state \<Rightarrow> string option" where
  "reply_header hdr r e s = (case handshakes r e s of Some sid \<Rightarrow> Some sid | None \<Rightarrow> hdr)"

subsection \<open>POST /mcp\<close>

text \<open>\<open>sessionId && transports[sessionId]\<close>\<close>

definition existing :: "string option \<Rightarrow> (string \<rightharpoonup> transport_ref) \<Rightarrow> slot option" where
  "existing hdr m =
     (case hdr of
        None \<Rightarrow> None
      | Some k \<Rightarrow> if k = [] then None else transports_get m k)"

text \<open>\<open>!sessionId && req.body && req.body.method === 'initialize'\<close>\<close>

definition is_initialize :: "request \<Rightarrow> bool" where
  "is_initialize req =
     ((mcp_session_id req = None \<or> mcp_session_id req = Some [])
      \<and> (case body req of None \<Rightarrow> False | Some b \<Rightarrow> b_method b = JStr ''initialize''))"

text \<open>\<open>req.body?.id || null\<close>\<close>

definition id_or_null :: "request \<Rightarrow> jsval" where
  "id_or_null req =
     (case body req of
        None \<Rightarrow> JNull
      | Some b \<Rightarrow> if truthy (b_id b) then b_id b else JNull)"

text \<open>
  The \<open>try\<close> block around \<open>await transport.handleRequest(req, res, req.body)\<close>. Calling
  \<open>handleRequest\<close> on an inherited member of \<open>Object.prototype\<close> throws a \<open>TypeError\<close> before
  anything is sent; \<open>hdr\<close> is the header set before the call.
\<close>

definition post_handle ::
  "slot \<Rightarrow> string option \<Rightarrow> sdk_effect \<Rightarrow> request \<Rightarrow> server_state \<Rightarrow> response \<times> server_state" where
  "post_handle sl hdr e req s =
     (case sl of
        Inherited \<Rightarrow>
          (\<lparr>session_header = hdr, handled_by = None,
            reply = JsonRpcError 500 (- 32603) ''Internal server error'' (id_or_null req)\<rparr>, s)
      | Own r \<Rightarrow>
          (case e of
             Throwing sent \<Rightarrow>
               (\<lparr>session_header = hdr, handled_by = Some r,
                 reply = (if sent then BySdk r e
                          else JsonRpcError 500 (- 32603) ''Internal server error'' (id_or_null req))\<rparr>,
                s)
           | _ \<Rightarrow>
               (\<lparr>session_header = reply_header hdr r e s, handled_by = Some r, reply = BySdk r e\<rparr>,
                sdk_apply r e s)))"

text \<open>
  The handler of \<open>app.post('/mcp')\<close>. In the initialize branch the transport is created with
  the router's \<open>onclose\<close> stored in it (lines 306 to 319), then \<open>await server.connect(transport)\<close>
  runs outside any \<open>try\<close> block (line 321), then the header is set if the transport has an
  identifier by now (lines 325 to 329).
\<close>

definition post_mcp ::
  "connect_effect \<Rightarrow> sdk_effect \<Rightarrow> request \<Rightarrow> server_state \<Rightarrow> response \<times> server_state" where
  "post_mcp c e req s =
     (case existing (mcp_session_id req) (transports s) of
        Some sl \<Rightarrow> post_handle sl None e req s
      | None \<Rightarrow>
          if is_initialize req then
            (let r = length (objects s);
                 s0 = s\<lparr>objects := objects s @ [\<lparr>sessionId = None, onclose_router = True\<rparr>]\<rparr>
             in case c of
                  Rejected \<Rightarrow>
                    (\<lparr>session_header = None, handled_by = None, reply = Unanswered\<rparr>, s0)
                | _ \<Rightarrow>
                    (let s1 = s0\<lparr>objects := (objects s0)
                                  [r := (objects s0 ! r)\<lparr>onclose_router := (c = Chained)\<rparr>]\<rparr>;
                         hdr = (case sessionId (objects s1 ! r) of
                                  None \<Rightarrow> None
                                | Some sid \<Rightarrow> if sid \<noteq> [] then Some sid else None)
                     in post_handle (Own r) hdr e req s1))
          else
            (\<lparr>session_header = None, handled_by = None,
              reply = JsonRpcError 400 (- 32000) ''Bad Request: No valid session ID provided''
                        (id_or_null req)\<rparr>, s))"

subsection \<open>GET and DELETE /mcp\<close>

definition handleSessionRequest ::
  "sdk_effect \<Rightarrow> request \<Rightarrow> server_state \<Rightarrow> response \<times> server_state" where
  "handleSessionRequest e req s =
     (case existing (mcp_session_id req) (transports s) of
        None \<Rightarrow>
          (\<lparr>session_header = None, handled_by = None,
            reply = PlainText 400 ''Invalid or missing session ID''\<rparr>, s)
      | Some Inherited \<Rightarrow>
          (\<lparr>session_header = None, handled_by = None,
            reply = PlainText 500 ''Internal server error''\<rparr>, s)
      | Some (Own r) \<Rightarrow>
          (case e of
             Throwing sent \<Rightarrow>
               (\<lparr>session_header = None, handled_by = Some r,
                 reply = (if sent then BySdk r e else PlainText 500 ''Internal server error'')\<rparr>, s)
           | _ \<Rightarrow>
               (\<lparr>session_header = reply_header None r e s, handled_by = Some r, reply = BySdk r e\<rparr>,
                sdk_apply r e s)))"

subsection \<open>Runs of the server\<close>

text \<open>
  The things that happen to the server, one at a time: a POST, a GET or DELETE, each with
  what the SDK did with it, and a transport closing on its own.
\<close>

datatype event =
    Post connect_effect sdk_effect request
  | Session sdk_effect request
  | Close transport_ref

fun step :: "event \<Rightarrow> server_state \<Rightarrow> server_state" where
  "step (Post c e req) s = snd (post_mcp c e req s)"
| "step (Session e req) s = snd (handleSessionRequest e req s)"
| "step (Close r) s = transport_closes r s"

fun run :: "event list \<Rightarrow> server_state \<Rightarrow> server_state" where
  "run [] s = s"
| "run (ev # evs) s = run evs (step ev s)"

text \<open>The event is a handshake in which the generator returns \<open>sid\<close>.\<close>

fun draws :: "string \<Rightarrow> event \<Rightarrow> bool" where
  "draws sid (Post c e req) = (e = Handshake sid)"
| "draws sid (Session e req) = (e = Handshake sid)"
| "draws sid (Close r) = False"




text \<open>
  The shape of what \<open>randomUUID()\<close> returns: 36 characters, hyphens at positions 8, 13, 18
  and 23, lower-case hexadecimal digits elsewhere.
\<close>

definition uuid_class :: "char \<Rightarrow> nat" where
  "uuid_class c = (if c = CHR ''-'' then 0 else if c \<in> set ''0123456789abcdef'' then 1 else 2)"

definition is_uuid :: "string \<Rightarrow> bool" where
  "is_uuid s = (map uuid_class s = map uuid_class ''00000000-0000-0000-0000-000000000000'')"

section \<open>Strings as JavaScript builds them\<close>

definition newline :: char where
  "newline = CHR 0x0A"

definition esc :: char where
  "esc = CHR 0x1B"

text \<open>\<open>n.toString()\<close> for a non-negative integer below \<open>10^21\<close>.\<close>

fun show_nat :: "nat \<Rightarrow> string" where
  "show_nat n =
     (if n < 10 then [''0123456789'' ! n]
      else show_nat (n div 10) @ [''0123456789'' ! (n mod 10)])"

declare show_nat.simps [simp del]

definition show_int :: "int \<Rightarrow> string" where
  "show_int i = (if i < 0 then CHR ''-'' # show_nat (nat (- i)) else show_nat (nat i))"

text \<open>\<open>xs.join(sep)\<close> on an array of strings.\<close>

fun join :: "string \<Rightarrow> string list \<Rightarrow> string" where
  "join sep [] = []"
| "join sep [x] = x"
| "join sep (x # y # ys) = x @ sep @ join sep (y # ys)"

text \<open>
  \<open>String(v)\<close>, the conversion a template literal applies to \<open>${v}\<close>. Inside an array
  \<open>null\<close> and \<open>undefined\<close> become the empty string.
\<close>

primrec to_string :: "jsval \<Rightarrow> string" where
  "to_string JUndefined = ''undefined''"
| "to_string JNull = ''null''"
| "to_string (JBool b) = (if b then ''true'' else ''false'')"
| "to_string (JNum n) = show_int n"
| "to_string (JStr s) = s"
| "to_string (JArr xs) =
     join '','' (map (\<lambda>p. if fst p = JUndefined \<or> fst p = JNull then [] else snd p)
                   (zip xs (map to_string xs)))"
| "to_string (JObj kvs) = ''[object Object]''"

text \<open>
  \<open>JSON.stringify\<close>: the quoting of a string (quote, backslash and the control characters
  below \<open>0x20\<close> are escaped), and the value itself; \<open>None\<close> is the result \<open>undefined\<close>. A member
  whose value is \<open>undefined\<close> is left out of an object and written \<open>null\<close> in an array.
\<close>

definition json_escape :: "char \<Rightarrow> string" where
  "json_escape c =
     (if c = CHR 0x22 then [CHR 0x5C, CHR 0x22]
      else if c = CHR 0x5C then [CHR 0x5C, CHR 0x5C]
      else if c = CHR 0x08 then [CHR 0x5C, CHR ''b'']
      else if c = CHR 0x09 then [CHR 0x5C, CHR ''t'']
      else if c = CHR 0x0A then [CHR 0x5C, CHR ''n'']
      else if c = CHR 0x0C then [CHR 0x5C, CHR ''f'']
      else if c = CHR 0x0D then [CHR 0x5C, CHR ''r'']
      else if of_char c < (32 :: nat) then
        [CHR 0x5C, CHR ''u'', CHR ''0'', CHR ''0'',
         ''0123456789abcdef'' ! (of_char c div 16), ''0123456789abcdef'' ! (of_char c mod 16)]
      else [c])"

definition json_quote :: "string \<Rightarrow> string" where
  "json_quote s = CHR 0x22 # concat (map json_escape s) @ [CHR 0x22]"

primrec stringify :: "jsval \<Rightarrow> string option" where
  "stringify JUndefined = None"
| "stringify JNull = Some ''null''"
| "stringify (JBool b) = Some (if b then ''true'' else ''false'')"
| "stringify (JNum n) = Some (show_int n)"
| "stringify (JStr s) = Some (json_quote s)"
| "stringify (JArr xs) =
     Some (''['' @ join '','' (map (\<lambda>r. case r of None \<Rightarrow> ''null'' | Some t \<Rightarrow> t)
                                  (map stringify xs)) @ '']'')"
| "stringify (JObj kvs) =
     Some (''{'' @ join '','' (concat (map (\<lambda>kr. case snd kr of None \<Rightarrow> []
                                                 | Some t \<Rightarrow> [json_quote (fst kr) @ '':'' @ t])
                                        (map (map_prod id stringify) kvs))) @ ''}'')"

text \<open>
  A string is held as the bytes of its UTF-8 encoding: an ASCII character is one byte below
  \<open>0x80\<close>, every other character a sequence of two to four bytes from \<open>0x80\<close> on, so that a
  byte below \<open>0x80\<close> is always a whole ASCII character and one character's bytes never occur
  inside or across others.

  \<open>s.toLowerCase()\<close> follows the case tables of the Unicode standard, which are the engine's
  (it turns \<open>U+212A\<close>, the Kelvin sign, into \<open>k\<close>): the function is a parameter of what calls
  it. \<open>ascii_lower\<close> turns the letters \<open>A\<close> to \<open>Z\<close> into \<open>a\<close> to \<open>z\<close> and leaves every other
  byte; it is what \<open>toLowerCase\<close> does to a text whose cased characters are all ASCII.
\<close>

type_synonym lowering = "string \<Rightarrow> string"

definition lower_char :: "char \<Rightarrow> char" where
  "lower_char c =
     (case map_of (zip ''ABCDEFGHIJKLMNOPQRSTUVWXYZ'' ''abcdefghijklmnopqrstuvwxyz'') c of
        Some l \<Rightarrow> l
      | None \<Rightarrow> c)"

definition ascii_lower :: lowering where
  "ascii_lower s = map lower_char s"

text \<open>\<open>s.startsWith(t)\<close> and \<open>s.includes(t)\<close>.\<close>

definition startsWith :: "string \<Rightarrow> string \<Rightarrow> bool" where
  "startsWith s t = (take (length t) s = t)"

fun includes_str :: "string \<Rightarrow> string \<Rightarrow> bool" where
  "includes_str [] t = (t = [])"
| "includes_str (c # cs) t = (startsWith (c # cs) t \<or> includes_str cs t)"

text \<open>
  \<open>Math.random()\<close>: the sequence of values the calls return from now on, each in \<open>[0, 1)\<close>;
  \<open>Math.floor(Math.random() * n)\<close> for the call that returns \<open>u\<close>.
\<close>

type_synonym random = "nat \<Rightarrow> real"

definition floor_random :: "real \<Rightarrow> nat \<Rightarrow> nat" where
  "floor_random u n = nat \<lfloor>u * real n\<rfloor>"

section \<open>Server: posting a tweet (src/server/mcp.tool.ts, src/server/index.ts)\<close>

record TextContent =
  c_type :: string
  c_text :: string

record ToolResponse =
  content :: "TextContent list"

text \<open>
  What \<open>twitterClient.v2.tweet(status)\<close> does is the Twitter library's business: it resolves
  with a tweet, of which the code reads \<open>data.id\<close>, or throws an error object, of which the
  code reads \<open>message\<close> and \<open>code\<close>.
\<close>

record api_error =
  e_message :: jsval
  e_code :: jsval

type_synonym twitter = "string \<Rightarrow> api_error + string"

text \<open>\<open>createPost\<close> of lines 25 to 51 of mcp.tool.ts: the client is always there.\<close>

definition createPost :: "twitter \<Rightarrow> string \<Rightarrow> api_error + ToolResponse" where
  "createPost twitterClient status =
     (case twitterClient status of
        Inr tweet_id \<Rightarrow>
          Inr \<lparr>content = [\<lparr>c_type = ''text'', c_text = ''Tweet sent successfully: '' @ tweet_id\<rparr>]\<rparr>
      | Inl error \<Rightarrow>
          Inr \<lparr>content = [\<lparr>c_type = ''text'',
                           c_text = ''Error sending tweet: '' @ to_string (e_message error)\<rparr>]\<rparr>)"

text \<open>
  \<open>createPost\<close> of lines 99 to 168: \<open>twitterClient\<close> is \<open>null\<close> unless the four credentials
  are set, and without it, or after an error that has no \<open>code\<close>, a tweet is made up from two
  random numbers.
\<close>

definition mock_tweet :: "random \<Rightarrow> string \<Rightarrow> ToolResponse" where
  "mock_tweet rnd status =
     (let mockTweetId = show_nat (floor_random (rnd 0) 1000000000)
                        @ show_nat (floor_random (rnd 1) 1000000000);
          formattedContent = ''Tweet created successfully: Tweet sent successfully: ''
                        @ mockTweetId @ [newline] @ ''Content: '' @ [CHR 0x22] @ status @ [CHR 0x22]
      in \<lparr>content = [\<lparr>c_type = ''text'', c_text = formattedContent\<rparr>]\<rparr>)"

definition createPost_mock ::
  "twitter option \<Rightarrow> random \<Rightarrow> string \<Rightarrow> api_error + ToolResponse" where
  "createPost_mock twitterClient rnd status =
     (case twitterClient of
        Some client \<Rightarrow>
          (case client status of
             Inr tweet_id \<Rightarrow>
               Inr \<lparr>content = [\<lparr>c_type = ''text'',
                     c_text = ''Tweet sent successfully: '' @ tweet_id @ [newline]
                              @ ''Content: '' @ [CHR 0x22] @ status @ [CHR 0x22]\<rparr>]\<rparr>
           | Inl apiError \<Rightarrow>
               if truthy (e_code apiError) then
                 Inr \<lparr>content = [\<lparr>c_type = ''text'',
                       c_text = ''Error posting to Twitter: ''
                                @ (if truthy (e_message apiError) then to_string (e_message apiError)
                                   else ''Unknown error'')
                                @ '' (Code: '' @ to_string (e_code apiError) @ '')''\<rparr>]\<rparr>
               else Inr (mock_tweet rnd status))
      | None \<Rightarrow> Inr (mock_tweet rnd status))"

text \<open>
  The handler of the tool \<open>twitter-X-post\<close> (index.ts, lines 180 to 194), given what
  \<open>createPost\<close> resolved with: \<open>result.content[0]?.text || 'Tweet sent'\<close> between the green
  heading and a newline.
\<close>

definition tweet_heading :: string where
  "tweet_heading = esc # ''[1;32mTweet created successfully:'' @ esc # ''[0m ''"

definition first_text :: "ToolResponse \<Rightarrow> string" where
  "first_text result =
     (case content result of
        [] \<Rightarrow> ''Tweet sent''
      | c # _ \<Rightarrow> if c_text c \<noteq> [] then c_text c else ''Tweet sent'')"

definition twitter_X_post :: "api_error + ToolResponse \<Rightarrow> api_error + ToolResponse" where
  "twitter_X_post created =
     (case created of
        Inl e \<Rightarrow> Inl e
      | Inr result \<Rightarrow>
          Inr \<lparr>content = [\<lparr>c_type = ''text'',
                           c_text = tweet_heading @ first_text result @ [newline]\<rparr>]\<rparr>)"

section \<open>Client: MCPClientImpl (src/unnamed/part_001)\<close>

unbundle bit_operations_syntax

text \<open>An exception, by what \<open>err instanceof Error ? err.message : ...\<close> reads of it.\<close>

datatype js_error = Error string | TypeError string

fun error_message :: "js_error \<Rightarrow> string" where
  "error_message (Error m) = m"
| "error_message (TypeError m) = m"

text \<open>
  \<open>generateUUID\<close>: every \<open>x\<close> and \<open>y\<close> of the template is replaced by a hexadecimal digit
  made from the next call of \<open>Math.random()\<close>.
\<close>

definition hex_digit :: "nat \<Rightarrow> char" where
  "hex_digit v = ''0123456789abcdef'' ! v"

fun replace_xy :: "string \<Rightarrow> random \<Rightarrow> string" where
  "replace_xy [] rnd = []"
| "replace_xy (c # cs) rnd =
     (if c = CHR ''x'' \<or> c = CHR ''y'' then
        (let r = floor_random (rnd 0) 16;
             v = (if c = CHR ''x'' then r else (r AND 3) OR 8)
         in hex_digit v # replace_xy cs (\<lambda>i. rnd (Suc i)))
      else c # replace_xy cs rnd)"

definition uuid_template :: string where
  "uuid_template = ''xxxxxxxx-xxxx-4xxx-yxxx-xxxxxxxxxxxx''"

definition generateUUID :: "random \<Rightarrow> string" where
  "generateUUID rnd = replace_xy uuid_template rnd"

text \<open>The number of calls of \<open>Math.random()\<close> one \<open>generateUUID()\<close> makes.\<close>

definition uuid_draws :: nat where
  "uuid_draws = length (filter (\<lambda>c. c = CHR ''x'' \<or> c = CHR ''y'') uuid_template)"

text \<open>
  What a method of the client does to the world outside it, call by call: a line on the
  console (named by its first argument), a call of \<open>Math.random()\<close>, and a request sent
  over the network to a URL, which is what \<open>fetch\<close> or any other means of reaching the server
  would be.
\<close>

datatype effect = ConsoleLog string | ConsoleError string | MathRandom | NetworkRequest string

record MCPClientImpl =
  c_sessionId :: string
  connected :: bool
  baseUrl :: string


text \<open>
  \<open>connect\<close> (lines 103 to 119): nothing in its \<open>try\<close> block throws. \<open>generateUUID()\<close> calls
  \<open>Math.random()\<close> once for every \<open>x\<close> and \<open>y\<close> of the template.
\<close>

definition connect ::
  "random \<Rightarrow> MCPClientImpl \<Rightarrow> (js_error + MCPClientImpl) \<times> effect list" where
  "connect rnd c =
     (Inr (c\<lparr>c_sessionId := generateUUID rnd, connected := True\<rparr>),
      [ConsoleLog ''Connecting to MCP server at:''] @ replicate uuid_draws MathRandom
      @ [ConsoleLog ''Generated session ID:'',
         ConsoleLog ''Connected to MCP server with session ID:''])"

text \<open>
  \<open>Tool\<close> with its \<open>inputSchema: { type: string; properties: Record<string, any>;
  required: string[] | any }\<close>.
\<close>

record InputSchema =
  s_type :: string
  s_properties :: "(string \<times> jsval) list"
  s_required :: jsval

record Tool =
  t_name :: string
  t_description :: string
  inputSchema :: InputSchema

definition string_property :: "string \<Rightarrow> jsval" where
  "string_property d = JObj [(''type'', JStr ''string''), (''description'', JStr d)]"

definition client_tools :: "Tool list" where
  "client_tools =
     [\<lparr>t_name = ''github-repo-info'',
       t_description = ''Fetch information about a public GitHub repository'',
       inputSchema =
         \<lparr>s_type = ''object'',
          s_properties = [(''owner'', string_property ''GitHub username or organization''),
                          (''repo'', string_property ''Repository name'')],
          s_required = JArr [JStr ''owner'', JStr ''repo'']\<rparr>\<rparr>,
      \<lparr>t_name = ''twitter-X-post'',
       t_description = ''Create and post a tweet on X formally known as Twitter'',
       inputSchema =
         \<lparr>s_type = ''object'',
          s_properties = [(''status'', string_property ''The content of the tweet'')],
          s_required = JArr [JStr ''status'']\<rparr>\<rparr>]"

definition listTools ::
  "random \<Rightarrow> MCPClientImpl \<Rightarrow> (js_error + Tool list) \<times> MCPClientImpl \<times> effect list" where
  "listTools rnd c =
     (if connected c then (Inr client_tools, c, [ConsoleLog ''Listing tools with session ID:''])
      else (case connect rnd c of
              (Inl e, es) \<Rightarrow> (Inl e, c, es)
            | (Inr c1, es) \<Rightarrow>
                (Inr client_tools, c1, es @ [ConsoleLog ''Listing tools with session ID:''])))"

record call_params =
  p_name :: string
  p_arguments :: jsval

record MCPResponse =
  m_content :: "TextContent list"

text \<open>
  The member \<open>k\<close> of a value that is not \<open>null\<close> or \<open>undefined\<close>: \<open>undefined\<close> when the
  object has none, and for a string, a number, a boolean or an array (none of the names read
  in this program is a member of those).
\<close>

definition member_of :: "jsval \<Rightarrow> string \<Rightarrow> jsval" where
  "member_of v k =
     (case v of
        JObj kvs \<Rightarrow> (case map_of kvs k of Some x \<Rightarrow> x | None \<Rightarrow> JUndefined)
      | _ \<Rightarrow> JUndefined)"

text \<open>
  \<open>const { first, ... } = v\<close>: a \<open>TypeError\<close> when \<open>v\<close> is \<open>null\<close> or \<open>undefined\<close>, and the
  members of \<open>v\<close> otherwise.
\<close>

definition destructure :: "string \<Rightarrow> jsval \<Rightarrow> js_error + (string \<Rightarrow> jsval)" where
  "destructure first v =
     (case v of
        JUndefined \<Rightarrow>
          Inl (TypeError (''Cannot destructure property '' @ [CHR 0x27] @ first @ [CHR 0x27]
                          @ '' of '' @ [CHR 0x27] @ ''params.arguments'' @ [CHR 0x27]
                          @ '' as it is undefined.''))
      | JNull \<Rightarrow>
          Inl (TypeError (''Cannot destructure property '' @ [CHR 0x27] @ first @ [CHR 0x27]
                          @ '' of '' @ [CHR 0x27] @ ''params.arguments'' @ [CHR 0x27]
                          @ '' as it is null.''))
      | _ \<Rightarrow> Inr (member_of v))"

text \<open>The emoji of the repository text, as their UTF-8 bytes.\<close>

definition emoji_package :: string where
  "emoji_package = [CHR 0xF0, CHR 0x9F, CHR 0x93, CHR 0xA6]"

definition emoji_memo :: string where
  "emoji_memo = [CHR 0xF0, CHR 0x9F, CHR 0x93, CHR 0x9D]"

definition emoji_star :: string where
  "emoji_star = [CHR 0xE2, CHR 0xAD, CHR 0x90]"

definition emoji_fork :: string where
  "emoji_fork = [CHR 0xF0, CHR 0x9F, CHR 0x8D, CHR 0xB4]"

definition emoji_flag :: string where
  "emoji_flag = [CHR 0xF0, CHR 0x9F, CHR 0x9A, CHR 0xA9]"

definition emoji_link :: string where
  "emoji_link = [CHR 0xF0, CHR 0x9F, CHR 0x94, CHR 0x97]"

definition repo_text :: "random \<Rightarrow> jsval \<Rightarrow> jsval \<Rightarrow> string" where
  "repo_text rnd owner repo =
     (let full_name = to_string owner @ ''/'' @ to_string repo;
          description = ''Repository for '' @ to_string repo;
          stargazers_count = floor_random (rnd 0) 100;
          forks_count = floor_random (rnd 1) 20;
          open_issues_count = floor_random (rnd 2) 10;
          html_url = ''https://github.com/'' @ to_string owner @ ''/'' @ to_string repo
      in emoji_package @ '' Repository Name: '' @ full_name @ [newline, newline]
         @ emoji_memo @ '' Description: '' @ description @ [newline]
         @ emoji_star @ '' Stars: '' @ show_nat stargazers_count @ [newline]
         @ emoji_fork @ '' Forks: '' @ show_nat forks_count @ [newline]
         @ emoji_flag @ '' Open Issues: '' @ show_nat open_issues_count @ [newline]
         @ emoji_link @ '' Repository Link: '' @ html_url)"

definition tweet_text :: "random \<Rightarrow> jsval \<Rightarrow> string" where
  "tweet_text rnd status =
     (let tweetId = show_nat (floor_random (rnd 0) 1000000000)
                    @ show_nat (floor_random (rnd 1) 1000000000)
      in ''Tweet created successfully: Tweet sent successfully: '' @ tweetId @ [newline]
         @ ''Content: '' @ [CHR 0x22] @ to_string status @ [CHR 0x22])"

definition echo_text :: "call_params \<Rightarrow> string" where
  "echo_text params =
     ''Called tool '' @ p_name params @ '' with arguments: ''
     @ (case stringify (p_arguments params) of None \<Rightarrow> ''undefined'' | Some t \<Rightarrow> t)"

text \<open>
  The \<open>try\<close> block of \<open>callTool\<close> (lines 177 to 230); its \<open>catch\<close> writes to the console and
  throws the error again.
\<close>

definition fabricate :: "random \<Rightarrow> call_params \<Rightarrow> (js_error + MCPResponse) \<times> effect list" where
  "fabricate rnd params =
     (if p_name params = ''github-repo-info'' then
        (case destructure ''owner'' (p_arguments params) of
           Inl e \<Rightarrow>
             (Inl e, [ConsoleLog ''Calling tool with session ID:'', ConsoleLog ''Tool:'',
                      ConsoleError ''Error calling tool:''])
         | Inr member \<Rightarrow>
             (Inr \<lparr>m_content = [\<lparr>c_type = ''text'',
                                 c_text = repo_text rnd (member ''owner'') (member ''repo'')\<rparr>]\<rparr>,
              [ConsoleLog ''Calling tool with session ID:'', ConsoleLog ''Tool:'',
               MathRandom, MathRandom, MathRandom]))
      else if p_name params = ''twitter-X-post'' then
        (case destructure ''status'' (p_arguments params) of
           Inl e \<Rightarrow>
             (Inl e, [ConsoleLog ''Calling tool with session ID:'', ConsoleLog ''Tool:'',
                      ConsoleError ''Error calling tool:''])
         | Inr member \<Rightarrow>
             (Inr \<lparr>m_content = [\<lparr>c_type = ''text'', c_text = tweet_text rnd (member ''status'')\<rparr>]\<rparr>,
              [ConsoleLog ''Calling tool with session ID:'', ConsoleLog ''Tool:'',
               MathRandom, MathRandom]))
      else (Inr \<lparr>m_content = [\<lparr>c_type = ''text'', c_text = echo_text params\<rparr>]\<rparr>,
            [ConsoleLog ''Calling tool with session ID:'', ConsoleLog ''Tool:'']))"

text \<open>
  \<open>callTool\<close>: the promise's outcome, the client afterwards, and what was done to the world,
  in order. A client not yet connected connects first, which uses up the first random
  numbers.
\<close>

definition callTool ::
  "random \<Rightarrow> call_params \<Rightarrow> MCPClientImpl \<Rightarrow>
   (js_error + MCPResponse) \<times> MCPClientImpl \<times> effect list" where
  "callTool rnd params c =
     (if connected c then
        (case fabricate rnd params of (r, es) \<Rightarrow> (r, c, es))
      else (case connect rnd c of
              (Inl e, es) \<Rightarrow> (Inl e, c, es)
            | (Inr c1, es) \<Rightarrow>
                (case fabricate (\<lambda>i. rnd (i + uuid_draws)) params of
                   (r, es') \<Rightarrow> (r, c1, es @ es'))))"


section \<open>Client: GeminiService (src/unnamed/part_002)\<close>

subsection \<open>Chat history\<close>

datatype role = User | Model

record Part =
  p_text :: string
  p_type :: string

record ChatMessage =
  role :: role
  parts :: "Part list"

record GeminiService =
  chatHistory :: "ChatMessage list"
  apiKey :: string

definition addUserMessage :: "string \<Rightarrow> GeminiService \<Rightarrow> GeminiService" where
  "addUserMessage message g =
     g\<lparr>chatHistory := chatHistory g @ [\<lparr>role = User, parts = [\<lparr>p_text = message, p_type = ''text''\<rparr>]\<rparr>]\<rparr>"

definition addModelMessage :: "string \<Rightarrow> GeminiService \<Rightarrow> GeminiService" where
  "addModelMessage message g =
     g\<lparr>chatHistory := chatHistory g @ [\<lparr>role = Model, parts = [\<lparr>p_text = message, p_type = ''text''\<rparr>]\<rparr>]\<rparr>"

subsection \<open>The model's answer\<close>

text \<open>
  What the Gemini library returns, as far as the code reads it: every member is optional.
  The call itself is a parameter: given the history and the function declarations (or
  \<open>undefined\<close> when there is no tool) it resolves with a response or throws.
\<close>

record RawFunctionCall =
  raw_name :: "string option"
  raw_args :: "(string \<times> jsval) list option"

record RawPart =
  functionCall :: "RawFunctionCall option"
  text_of :: "string option"

record Content =
  content_parts :: "RawPart list option"

record Candidate =
  candidate_content :: "Content option"

record GenerateContentResponse =
  candidates :: "Candidate list option"

record FunctionDeclaration =
  d_name :: string
  d_description :: string
  d_parameters :: InputSchema

type_synonym model_api =
  "ChatMessage list \<Rightarrow> FunctionDeclaration list option \<Rightarrow> js_error + GenerateContentResponse"

definition functionDeclarations :: "Tool list \<Rightarrow> FunctionDeclaration list" where
  "functionDeclarations tools =
     map (\<lambda>tool. \<lparr>d_name = t_name tool, d_description = t_description tool,
                  d_parameters = \<lparr>s_type = s_type (inputSchema tool),
                                  s_properties = s_properties (inputSchema tool),
                                  s_required = s_required (inputSchema tool)\<rparr>\<rparr>)
         tools"

record FunctionCall =
  name :: string
  args :: "(string \<times> jsval) list"

record GeminiResponse =
  g_functionCall :: "FunctionCall option"
  g_text :: "string option"

text \<open>\<open>functionCall && functionCall.name ? { name, args: functionCall.args || {} } : undefined\<close>\<close>

definition named_call :: "RawPart \<Rightarrow> FunctionCall option" where
  "named_call part =
     (case functionCall part of
        None \<Rightarrow> None
      | Some fc \<Rightarrow>
          (case raw_name fc of
             None \<Rightarrow> None
           | Some n \<Rightarrow>
               if n \<noteq> [] then
                 Some \<lparr>name = n, args = (case raw_args fc of Some a \<Rightarrow> a | None \<Rightarrow> [])\<rparr>
               else None))"

text \<open>The inner \<open>try\<close> block (lines 84 to 129): \<open>Inl\<close> is what its \<open>catch\<close> receives.\<close>

definition primary :: "model_api \<Rightarrow> Tool list \<Rightarrow> ChatMessage list \<Rightarrow> js_error + GeminiResponse" where
  "primary ai tools history =
     (let decls = functionDeclarations tools in
      case ai history (if decls \<noteq> [] then Some decls else None) of
        Inl e \<Rightarrow> Inl e
      | Inr response \<Rightarrow>
          (case candidates response of
             None \<Rightarrow> Inl (Error ''No response from Gemini'')
           | Some [] \<Rightarrow> Inl (Error ''No response from Gemini'')
           | Some (candidate # _) \<Rightarrow>
               (case candidate_content candidate of
                  None \<Rightarrow> Inl (Error ''Invalid response from Gemini'')
                | Some c \<Rightarrow>
                    (case content_parts c of
                       None \<Rightarrow> Inl (Error ''Invalid response from Gemini'')
                     | Some [] \<Rightarrow> Inl (Error ''Invalid response from Gemini'')
                     | Some (part # _) \<Rightarrow>
                         Inr \<lparr>g_functionCall = named_call part, g_text = text_of part\<rparr>))))"

subsection \<open>The two regular expressions\<close>

text \<open>
  A backtracking matcher for the constructs the two expressions use: a literal, \<open>\s+\<close>,
  alternation, sequence and \<open>?\<close>. The continuation receives the rest of the input;
  alternatives are tried in order, \<open>\s+\<close> and \<open>?\<close> are greedy. Both expressions end with the
  group \<open>([a-zA-Z0-9_-]+)\<close>, whose match is the longest run of such characters.

  The flag \<open>i\<close>, without the flag \<open>u\<close>, compares characters by their upper-case form, except
  that a character outside ASCII is never taken for an ASCII one: the letters of a literal
  and of the group match the ASCII letters of either case and nothing else.

  \<open>\s\<close> matches the white space and line terminators of the language: \<open>U+0009\<close> to
  \<open>U+000D\<close>, \<open>U+0020\<close>, \<open>U+00A0\<close>, \<open>U+1680\<close>, \<open>U+2000\<close> to \<open>U+200A\<close>, \<open>U+2028\<close>,
  \<open>U+2029\<close>, \<open>U+202F\<close>, \<open>U+205F\<close>, \<open>U+3000\<close> and \<open>U+FEFF\<close>, here by their encodings.
\<close>

datatype rx = Lit string | Spaces | Alt rx rx | Seq rx rx | Opt rx

definition white_space :: "string list" where
  "white_space =
     [[CHR 0x09], [CHR 0x0A], [CHR 0x0B], [CHR 0x0C], [CHR 0x0D], [CHR 0x20],
      [CHR 0xC2, CHR 0xA0], [CHR 0xE1, CHR 0x9A, CHR 0x80],
      [CHR 0xE2, CHR 0x80, CHR 0x80], [CHR 0xE2, CHR 0x80, CHR 0x81],
      [CHR 0xE2, CHR 0x80, CHR 0x82], [CHR 0xE2, CHR 0x80, CHR 0x83],
      [CHR 0xE2, CHR 0x80, CHR 0x84], [CHR 0xE2, CHR 0x80, CHR 0x85],
      [CHR 0xE2, CHR 0x80, CHR 0x86], [CHR 0xE2, CHR 0x80, CHR 0x87],
      [CHR 0xE2, CHR 0x80, CHR 0x88], [CHR 0xE2, CHR 0x80, CHR 0x89],
      [CHR 0xE2, CHR 0x80, CHR 0x8A], [CHR 0xE2, CHR 0x80, CHR 0xA8],
      [CHR 0xE2, CHR 0x80, CHR 0xA9], [CHR 0xE2, CHR 0x80, CHR 0xAF],
      [CHR 0xE2, CHR 0x81, CHR 0x9F], [CHR 0xE3, CHR 0x80, CHR 0x80],
      [CHR 0xEF, CHR 0xBB, CHR 0xBF]]"

text \<open>
  The number of bytes of the white space character \<open>s\<close> begins with, 0 when it begins with
  none; and the rest of \<open>s\<close> after one, two, ... of the white space characters it begins
  with, the longest run first, which is the order in which the greedy \<open>\s+\<close> offers them.
\<close>

definition space_size :: "string \<Rightarrow> nat" where
  "space_size s =
     (case filter (\<lambda>w. startsWith s w) white_space of [] \<Rightarrow> 0 | w # _ \<Rightarrow> length w)"

fun after_spaces :: "string list \<Rightarrow> nat \<Rightarrow> string \<Rightarrow> string list" where
  "after_spaces acc skip [] = acc"
| "after_spaces acc skip (c # cs) =
     (if 0 < skip then after_spaces acc (skip - 1) cs
      else if space_size (c # cs) = 0 then acc
      else after_spaces (drop (space_size (c # cs)) (c # cs) # acc)
             (space_size (c # cs) - 1) cs)"

fun first_success :: "string list \<Rightarrow> (string \<Rightarrow> string option) \<Rightarrow> string option" where
  "first_success [] k = None"
| "first_success (rest # rests) k =
     (case k rest of Some c \<Rightarrow> Some c | None \<Rightarrow> first_success rests k)"

definition is_word :: "char \<Rightarrow> bool" where
  "is_word c =
     (c \<in> set ''abcdefghijklmnopqrstuvwxyzABCDEFGHIJKLMNOPQRSTUVWXYZ0123456789_-'')"

fun rx_match :: "rx \<Rightarrow> string \<Rightarrow> (string \<Rightarrow> string option) \<Rightarrow> string option" where
  "rx_match (Lit a) s k =
     (if ascii_lower (take (length a) s) = ascii_lower a then k (drop (length a) s) else None)"
| "rx_match Spaces s k = first_success (after_spaces [] 0 s) k"
| "rx_match (Alt r1 r2) s k =
     (case rx_match r1 s k of Some c \<Rightarrow> Some c | None \<Rightarrow> rx_match r2 s k)"
| "rx_match (Seq r1 r2) s k = rx_match r1 s (\<lambda>rest. rx_match r2 rest k)"
| "rx_match (Opt r) s k = (case rx_match r s k of Some c \<Rightarrow> Some c | None \<Rightarrow> k s)"

definition capture_word :: "string \<Rightarrow> string option" where
  "capture_word s = (let w = takeWhile is_word s in if w = [] then None else Some w)"

text \<open>\<open>s.match(r)\<close>: the first start position at which the expression matches, group 1.\<close>

fun match_from :: "rx \<Rightarrow> string \<Rightarrow> string option" where
  "match_from r [] = rx_match r [] capture_word"
| "match_from r (c # cs) =
     (case rx_match r (c # cs) capture_word of
        Some w \<Rightarrow> Some w
      | None \<Rightarrow> match_from r cs)"

text \<open>\<open>/(?:owned by|from|by|of)\s+([a-zA-Z0-9_-]+)/i\<close>\<close>

definition owner_rx :: rx where
  "owner_rx = Seq (Alt (Lit ''owned by'') (Alt (Lit ''from'') (Alt (Lit ''by'') (Lit ''of'')))) Spaces"

text \<open>\<open>/(?:owned by|from|by|of|about)\s+([a-zA-Z0-9_-]+)/i\<close>\<close>

definition owner_about_rx :: rx where
  "owner_about_rx =
     Seq (Alt (Lit ''owned by'') (Alt (Lit ''from'') (Alt (Lit ''by'') (Alt (Lit ''of'') (Lit ''about'')))))
         Spaces"

text \<open>\<open>/(?:repo|repository)\s+(?:named|called)?\s+([a-zA-Z0-9_-]+)/i\<close>\<close>

definition repo_rx :: rx where
  "repo_rx =
     Seq (Alt (Lit ''repo'') (Lit ''repository''))
         (Seq Spaces (Seq (Opt (Alt (Lit ''named'') (Lit ''called''))) Spaces))"

subsection \<open>generateContent\<close>

text \<open>
  \<open>this.chatHistory.filter(msg => msg.role === 'user').pop()\<close> and
  \<open>lastUserMessage?.parts[0]?.text?.toLowerCase() || ''\<close>
\<close>

definition userQuery :: "lowering \<Rightarrow> ChatMessage list \<Rightarrow> string" where
  "userQuery toLowerCase history =
     (case rev (filter (\<lambda>msg. role msg = User) history) of
        [] \<Rightarrow> []
      | lastUserMessage # _ \<Rightarrow>
          (case parts lastUserMessage of
             [] \<Rightarrow> []
           | p # _ \<Rightarrow> toLowerCase (p_text p)))"

definition call :: "string \<Rightarrow> (string \<times> jsval) list \<Rightarrow> GeminiResponse" where
  "call n a = \<lparr>g_functionCall = Some \<lparr>name = n, args = a\<rparr>, g_text = None\<rparr>"

text \<open>The rule-based handling of lines 136 to 210.\<close>

definition rule_based :: "string \<Rightarrow> GeminiResponse" where
  "rule_based q =
     (if includes_str q ''repo'' \<or> includes_str q ''repository'' \<or> includes_str q ''github'' then
        (let owner = (case match_from owner_rx q of Some w \<Rightarrow> w | None \<Rightarrow> ''EcoLash'');
             repo = (case match_from repo_rx q of Some w \<Rightarrow> w | None \<Rightarrow> ''Compilers'')
         in call ''github-repo-info'' [(''owner'', JStr owner), (''repo'', JStr repo)])
      else if includes_str q ''post'' \<or> includes_str q ''tweet'' \<or> includes_str q ''twitter''
              \<or> includes_str q ''x'' then
        (if includes_str q ''repo'' \<or> includes_str q ''repository'' then
           (let owner = (case match_from owner_about_rx q of
                           Some w \<Rightarrow> w | None \<Rightarrow> ''Subhadeeproy3902'');
                repo = (case match_from repo_rx q of Some w \<Rightarrow> w | None \<Rightarrow> ''shadcnthemes'')
            in call ''twitter-X-post''
                 [(''status'', JStr (''Check out '' @ owner @ ''/'' @ repo
                     @ '' on GitHub! It has 58 stars, 1 forks, and 9 open issues.'' @ [newline]
                     @ ''https://github.com/'' @ owner @ ''/'' @ repo))])
         else call ''twitter-X-post''
                [(''status'', JStr ''Just testing the GitTweet integration with Twitter/X! #testing #development'')])
      else
        \<lparr>g_functionCall = None,
         g_text = Some (''I can help you get information about GitHub repositories or post tweets. ''
           @ ''Try asking something like '' @ [CHR 0x27]
           @ ''Get info about Compilers repo owned by EcoLash'' @ [CHR 0x27] @ '' or '' @ [CHR 0x27]
           @ ''Post a tweet about the repository'' @ [CHR 0x27] @ ''.'')\<rparr>)"

definition generateContent ::
  "lowering \<Rightarrow> model_api \<Rightarrow> Tool list \<Rightarrow> GeminiService \<Rightarrow> GeminiResponse" where
  "generateContent toLowerCase ai tools g =
     (let q = userQuery toLowerCase (chatHistory g) in
      if apiKey g \<noteq> [] then
        (case primary ai tools (chatHistory g) of
           Inr response \<Rightarrow> response
         | Inl error \<Rightarrow> rule_based q)
      else rule_based q)"

text \<open>A model that answers every call with one candidate of the one part \<open>part\<close>.\<close>

definition stub_model :: "RawPart \<Rightarrow> model_api" where
  "stub_model part history decls =
     Inr \<lparr>candidates = Some [\<lparr>candidate_content = Some \<lparr>content_parts = Some [part]\<rparr>\<rparr>]\<rparr>"

text \<open>A \<open>Math.random()\<close> that returns 0 at every call.\<close>

definition zero_random :: random where
  "zero_random i = 0"

section \<open>Client: the chat container (src/unnamed/part_000)\<close>

record MessageProps =
  message :: string
  isUser :: bool
  timestamp :: string

text \<open>
  The state \<open>handleSendMessage\<close> works on: the messages shown, the loading flag, the
  \<open>GeminiService\<close> with the conversation history, and the client of the context with its
  connection flag. The surroundings of one call: the tools of the context, the model, the
  engine's \<open>toLowerCase\<close>, the random numbers, and the two times of day read for the time
  stamps.
\<close>

record chat =
  messages :: "MessageProps list"
  isLoading :: bool
  gemini :: GeminiService
  client :: "MCPClientImpl option"
  isConnected :: bool

record surroundings =
  env_tools :: "Tool list"
  env_ai :: model_api
  env_lower :: lowering
  env_rnd :: random
  time_sent :: string
  time_answered :: string

text \<open>
  The \<open>try\<close> block of \<open>handleSendMessage\<close> (lines 72 to 120): the error thrown, if any, and
  the state as the block left it (what was appended before a \<open>throw\<close> stays appended).
\<close>

definition answer :: "surroundings \<Rightarrow> string \<Rightarrow> chat \<Rightarrow> js_error option \<times> chat" where
  "answer env msg st =
     (case client st of
        None \<Rightarrow> (Some (Error ''MCP client not connected''), st)
      | Some c \<Rightarrow>
          if \<not> isConnected st then (Some (Error ''MCP client not connected''), st)
          else
            (let g1 = addUserMessage msg (gemini st);
                 st1 = st\<lparr>gemini := g1\<rparr>;
                 geminiResponse = generateContent (env_lower env) (env_ai env) (env_tools env) g1
             in case g_functionCall geminiResponse of
                  Some fc \<Rightarrow>
                    (case callTool (env_rnd env)
                            \<lparr>p_name = name fc, p_arguments = JObj (args fc)\<rparr> c of
                       (Inl e, c1, es) \<Rightarrow> (Some e, st1\<lparr>client := Some c1\<rparr>)
                     | (Inr response, c1, es) \<Rightarrow>
                         (let responseText = join '' '' (map c_text (m_content response))
                          in (None, st1\<lparr>gemini := addModelMessage responseText g1,
                                       client := Some c1,
                                       messages := messages st1
                                          @ [\<lparr>message = responseText, isUser = False,
                                              timestamp = time_answered env\<rparr>]\<rparr>)))
                | None \<Rightarrow>
                    (case g_text geminiResponse of
                       None \<Rightarrow> (Some (Error ''No response from Gemini''), st1)
                     | Some t \<Rightarrow>
                         if t \<noteq> [] then
                           (None, st1\<lparr>gemini := addModelMessage t g1,
                                     messages := messages st1
                                        @ [\<lparr>message = t, isUser = False,
                                            timestamp = time_answered env\<rparr>]\<rparr>)
                         else (Some (Error ''No response from Gemini''), st1))))"

text \<open>
  \<open>handleSendMessage\<close>: the user's message is shown, the \<open>try\<close> block runs, an error it
  throws is shown as a message, and the loading flag is cleared.
\<close>

definition handleSendMessage :: "surroundings \<Rightarrow> string \<Rightarrow> chat \<Rightarrow> chat" where
  "handleSendMessage env msg st =
     (let userMessage = \<lparr>message = msg, isUser = True, timestamp = time_sent env\<rparr>;
          st0 = st\<lparr>messages := messages st @ [userMessage], isLoading := True\<rparr>
      in case answer env msg st0 of
           (None, st1) \<Rightarrow> st1\<lparr>isLoading := False\<rparr>
         | (Some err, st1) \<Rightarrow>
             st1\<lparr>messages := messages st1
                    @ [\<lparr>message = ''Error: '' @ error_message err, isUser = False,
                        timestamp = time_answered env\<rparr>],
                 isLoading := False\<rparr>)"

text \<open>
  The chat as the container first shows it once the context is connected: the greeting, an
  empty conversation history, the client of the context.
\<close>

definition initial_chat :: "string \<Rightarrow> MCPClientImpl \<Rightarrow> string \<Rightarrow> chat" where
  "initial_chat key c now =
     \<lparr>messages = [\<lparr>message = ''Hello! How can I help you today?'', isUser = False,
                   timestamp = now\<rparr>],
      isLoading = False,
      gemini = \<lparr>chatHistory = [], apiKey = key\<rparr>,
      client = Some c,
      isConnected = True\<rparr>"

text \<open>The part by which a model proposes \<open>adder({a: 2, b: 3})\<close>.\<close>

definition adder_call :: RawPart where
  "adder_call =
     \<lparr>functionCall = Some \<lparr>raw_name = Some ''adder'',
                            raw_args = Some [(''a'', JNum 2), (''b'', JNum 3)]\<rparr>,
      text_of = None\<rparr>"

text \<open>
  Surroundings in which the model is a stub answering with \<open>part\<close>, for messages in ASCII.
\<close>

definition stub_surroundings :: "RawPart \<Rightarrow> surroundings" where
  "stub_surroundings part =
     \<lparr>env_tools = client_tools, env_ai = stub_model part, env_lower = ascii_lower,
      env_rnd = zero_random,
      time_sent = ''10:00:00'', time_answered = ''10:00:01''\<rparr>"

text \<open>A client after \<open>connect()\<close> with the random numbers all 0.\<close>

definition connected_client :: MCPClientImpl where
  "connected_client =
     \<lparr>c_sessionId = ''00000000-0000-4000-8000-000000000000'', connected = True,
      baseUrl = ''http://localhost:3001/mcp''\<rparr>"

section \<open>Properties of the router\<close>

lemma is_uuid_length: "is_uuid s \<Longrightarrow> length s = 36"
  unfolding is_uuid_def
  by (drule arg_cong [where f = length]) simp

lemma is_uuid_nonempty: "is_uuid s \<Longrightarrow> s \<noteq> []"
  by (auto dest: is_uuid_length)

lemma is_uuid_not_inherited: "is_uuid s \<Longrightarrow> s \<notin> set object_prototype_keys"
  by (auto simp: object_prototype_keys_def dest: is_uuid_length)

lemma existing_absent:
  "is_uuid sid \<Longrightarrow> m sid = None \<Longrightarrow> existing (Some sid) m = None"
  by (simp add: existing_def transports_get_def is_uuid_not_inherited is_uuid_nonempty)


lemma post_unbound:
  "existing (mcp_session_id req) (transports s) = None \<Longrightarrow> \<not> is_initialize req \<Longrightarrow>
   post_mcp c e req s =
     (\<lparr>session_header = None, handled_by = None,
       reply = JsonRpcError 400 (- 32000) ''Bad Request: No valid session ID provided'' (id_or_null req)\<rparr>, s)"
  by (simp add: post_mcp_def)

lemma session_unbound:
  "existing (mcp_session_id req) (transports s) = None \<Longrightarrow>
   handleSessionRequest e req s =
     (\<lparr>session_header = None, handled_by = None,
       reply = PlainText 400 ''Invalid or missing session ID''\<rparr>, s)"
  by (simp add: handleSessionRequest_def)

lemma post_routed:
  "existing (mcp_session_id req) (transports s) = Some (Own r) \<Longrightarrow>
   handled_by (fst (post_mcp c e req s)) = Some r"
  by (cases e) (simp_all add: post_mcp_def post_handle_def)

lemma session_routed:
  "existing (mcp_session_id req) (transports s) = Some (Own r) \<Longrightarrow>
   handled_by (fst (handleSessionRequest e req s)) = Some r"
  by (cases e) (simp_all add: handleSessionRequest_def)

subsection \<open>States the server reaches\<close>













subsection \<open>A bound session stays bound\<close>













subsection \<open>Sessions opened and closed\<close>

lemma onclose_keeps_absent: "transports s sid = None \<Longrightarrow> transports (onclose r s) sid = None"
  by (simp add: onclose_def split: option.splits)

lemma transport_closes_keeps_absent:
  "transports s sid = None \<Longrightarrow> transports (transport_closes r s) sid = None"
  by (simp add: transport_closes_def onclose_keeps_absent)

lemma sdk_apply_keeps_absent:
  "transports s sid = None \<Longrightarrow> e \<noteq> Handshake sid \<Longrightarrow> transports (sdk_apply r e s) sid = None"
  by (cases e) (auto simp: onsessioninitialized_def transport_closes_keeps_absent)

lemma post_handle_keeps_absent:
  "transports s sid = None \<Longrightarrow> e \<noteq> Handshake sid \<Longrightarrow>
   transports (snd (post_handle sl hdr e req s)) sid = None"
  by (cases sl; cases e)
     (simp_all add: post_handle_def sdk_apply_keeps_absent del: sdk_apply.simps)

lemma post_mcp_keeps_absent:
  assumes "transports s sid = None" and "e \<noteq> Handshake sid"
  shows "transports (snd (post_mcp c e req s)) sid = None"
proof (cases "existing (mcp_session_id req) (transports s)")
  case (Some sl)
  with assms show ?thesis by (simp add: post_mcp_def post_handle_keeps_absent)
next
  case None
  show ?thesis
  proof (cases "is_initialize req")
    case False
    with None assms(1) show ?thesis by (simp add: post_mcp_def)
  next
    case True
    with None assms show ?thesis
      by (cases c) (simp_all add: post_mcp_def Let_def post_handle_keeps_absent)
  qed
qed

lemma handleSessionRequest_keeps_absent:
  assumes "transports s sid = None" and "e \<noteq> Handshake sid"
  shows "transports (snd (handleSessionRequest e req s)) sid = None"
proof (cases "existing (mcp_session_id req) (transports s)")
  case None
  with assms(1) show ?thesis by (simp add: handleSessionRequest_def)
next
  case (Some sl)
  from assms have "\<And>r. transports (sdk_apply r e s) sid = None"
    by (rule sdk_apply_keeps_absent)
  with Some assms(1) show ?thesis
    by (cases sl; cases e) (simp_all add: handleSessionRequest_def del: sdk_apply.simps)
qed

lemma step_keeps_absent:
  "transports s sid = None \<Longrightarrow> \<not> draws sid ev \<Longrightarrow> transports (step ev s) sid = None"
  by (cases ev)
     (simp_all add: post_mcp_keeps_absent handleSessionRequest_keeps_absent
        transport_closes_keeps_absent)

lemma run_keeps_absent:
  "transports s sid = None \<Longrightarrow> \<forall>ev \<in> set evs. \<not> draws sid ev \<Longrightarrow>
   transports (run evs s) sid = None"
  by (induction evs arbitrary: s) (simp_all add: step_keeps_absent)

text \<open>
  When \<open>server.connect\<close> has left the router's function in \<open>transport.onclose\<close>, a closing
  transport takes its session out of the table, and from then on, short of a later handshake
  drawing that very identifier again, every POST, GET or DELETE bearing the identifier is
  answered as unbound, reaches no transport and leaves the state as it is.
\<close>

lemma chained_close_unbinds:
  assumes "r < length (objects s)" and "onclose_router (objects s ! r)"
    and "sessionId (objects s ! r) = Some sid" and "is_uuid sid"
    and "\<forall>ev \<in> set evs. \<not> draws sid ev" and "mcp_session_id req = Some sid"
  shows "transports (transport_closes r s) sid = None \<and>
         post_mcp c e req (run evs (transport_closes r s)) =
           (\<lparr>session_header = None, handled_by = None,
             reply = JsonRpcError 400 (- 32000) ''Bad Request: No valid session ID provided''
                       (id_or_null req)\<rparr>, run evs (transport_closes r s)) \<and>
         handleSessionRequest e req (run evs (transport_closes r s)) =
           (\<lparr>session_header = None, handled_by = None,
             reply = PlainText 400 ''Invalid or missing session ID''\<rparr>,
            run evs (transport_closes r s))"
proof -
  have gone: "transports (transport_closes r s) sid = None"
    using assms(1-4) by (simp add: transport_closes_def onclose_def is_uuid_nonempty)
  then have later: "transports (run evs (transport_closes r s)) sid = None"
    using assms(5) by (rule run_keeps_absent)
  then have ex: "existing (mcp_session_id req) (transports (run evs (transport_closes r s))) = None"
    using assms(4,6) by (simp add: existing_absent)
  have ni: "\<not> is_initialize req"
    using assms(4,6) by (auto simp: is_initialize_def dest: is_uuid_nonempty)
  show ?thesis using gone ex ni by (simp add: post_unbound session_unbound)
qed

lemma post_initialize_connect_rejects:
  "is_initialize req \<Longrightarrow>
   post_mcp Rejected e req s =
     (\<lparr>session_header = None, handled_by = None, reply = Unanswered\<rparr>,
      s\<lparr>objects := objects s @ [\<lparr>sessionId = None, onclose_router = True\<rparr>]\<rparr>)"
  by (auto simp: post_mcp_def is_initialize_def existing_def Let_def)







text \<open>
  Claim C2 fails when \<open>server.connect\<close> stores a function of its own in \<open>transport.onclose\<close>
  (line 321, after the router stored its function in lines 314 to 319). A session is
  initialized and then torn down by a DELETE bearing its identifier, which the transport
  answers by closing: the table still holds the entry, and every later POST, GET or DELETE
  bearing the identifier is handed to the closed transport.
\<close>

theorem closed_session_still_routed:
  "transports
     (run [Post Replaced (Handshake ''123e4567-e89b-42d3-a456-426614174000'')
             \<lparr>mcp_session_id = None,
               body = Some \<lparr>b_method = JStr ''initialize'', b_id = JNum 1\<rparr>\<rparr>,
           Session Closing
             \<lparr>mcp_session_id = Some ''123e4567-e89b-42d3-a456-426614174000'', body = None\<rparr>]
        initial_state) ''123e4567-e89b-42d3-a456-426614174000'' = Some 0 \<and>
   handled_by (fst (post_mcp c e
     \<lparr>mcp_session_id = Some ''123e4567-e89b-42d3-a456-426614174000'',
       body = Some \<lparr>b_method = JStr ''tools/list'', b_id = JNum 2\<rparr>\<rparr>
     (run [Post Replaced (Handshake ''123e4567-e89b-42d3-a456-426614174000'')
             \<lparr>mcp_session_id = None,
               body = Some \<lparr>b_method = JStr ''initialize'', b_id = JNum 1\<rparr>\<rparr>,
           Session Closing
             \<lparr>mcp_session_id = Some ''123e4567-e89b-42d3-a456-426614174000'', body = None\<rparr>]
        initial_state))) = Some 0 \<and>
   handled_by (fst (handleSessionRequest e
     \<lparr>mcp_session_id = Some ''123e4567-e89b-42d3-a456-426614174000'', body = None\<rparr>
     (run [Post Replaced (Handshake ''123e4567-e89b-42d3-a456-426614174000'')
             \<lparr>mcp_session_id = None,
               body = Some \<lparr>b_method = JStr ''initialize'', b_id = JNum 1\<rparr>\<rparr>,
           Session Closing
             \<lparr>mcp_session_id = Some ''123e4567-e89b-42d3-a456-426614174000'', body = None\<rparr>]
        initial_state))) = Some 0"
proof -
  let ?u = "''123e4567-e89b-42d3-a456-426614174000''"
  let ?s = "run [Post Replaced (Handshake ?u)
             \<lparr>mcp_session_id = None,
               body = Some \<lparr>b_method = JStr ''initialize'', b_id = JNum 1\<rparr>\<rparr>,
           Session Closing \<lparr>mcp_session_id = Some ?u, body = None\<rparr>]
        initial_state"
  have st: "?s = \<lparr>transports = [?u \<mapsto> 0],
                  objects = [\<lparr>sessionId = Some ?u, onclose_router = False\<rparr>]\<rparr>"
    by (simp add: is_initialize_def initial_state_def post_mcp_def existing_def post_handle_def
        reply_header_def onsessioninitialized_def Let_def handleSessionRequest_def
        transports_get_def transport_closes_def)
  have ex: "\<And>b. existing (mcp_session_id \<lparr>mcp_session_id = Some ?u, body = b\<rparr>) (transports ?s)
              = Some (Own 0)"
    unfolding st by (simp add: existing_def transports_get_def)
  show ?thesis
    using post_routed [OF ex] session_routed [OF ex] unfolding st by simp
qed

text \<open>
  Claim C3 at the identifier \<open>constructor\<close>, which no session is bound to: the lookup finds
  the member of \<open>Object.prototype\<close>, the request takes the branch of an existing session, and
  the answer is the internal error -32603 with status 500 instead of -32000 with status 400.
\<close>

theorem post_inherited_key_internal_error:
  "post_mcp c e
     \<lparr>mcp_session_id = Some ''constructor'',
       body = Some \<lparr>b_method = JStr ''tools/list'', b_id = JNum 1\<rparr>\<rparr> initial_state =
   (\<lparr>session_header = None, handled_by = None,
     reply = JsonRpcError 500 (- 32603) ''Internal server error'' (JNum 1)\<rparr>, initial_state)"
  by (simp add: post_mcp_def existing_def transports_get_def object_prototype_keys_def
        initial_state_def post_handle_def id_or_null_def)

text \<open>
  What does hold of unbound requests: a POST bearing an identifier that is neither bound in
  the table nor the name of a member of \<open>Object.prototype\<close>, and a POST bearing none that is
  not an initialize request, are answered with status 400 and the code -32000, and the state
  stays as it is.
\<close>

theorem unbound_post_rejected:
  assumes "(\<exists>k. mcp_session_id req = Some k \<and> k \<noteq> [] \<and> transports s k = None
                \<and> k \<notin> set object_prototype_keys)
           \<or> ((mcp_session_id req = None \<or> mcp_session_id req = Some []) \<and> \<not> is_initialize req)"
  shows "post_mcp c e req s =
           (\<lparr>session_header = None, handled_by = None,
             reply = JsonRpcError 400 (- 32000) ''Bad Request: No valid session ID provided''
                       (id_or_null req)\<rparr>, s)"
proof -
  from assms have ex: "existing (mcp_session_id req) (transports s) = None"
    by (auto simp: existing_def transports_get_def)
  from assms have ni: "\<not> is_initialize req"
    by (auto simp: is_initialize_def)
  from ex ni show ?thesis by (rule post_unbound)
qed

theorem unbound_post_rejected_witness:
  "''123e4567-e89b-42d3-a456-426614174000'' \<notin> set object_prototype_keys \<and>
   post_mcp Chained Answered
     \<lparr>mcp_session_id = Some ''123e4567-e89b-42d3-a456-426614174000'',
       body = Some \<lparr>b_method = JStr ''initialize'', b_id = JNum 7\<rparr>\<rparr> initial_state =
     (\<lparr>session_header = None, handled_by = None,
       reply = JsonRpcError 400 (- 32000) ''Bad Request: No valid session ID provided'' (JNum 7)\<rparr>,
      initial_state) \<and>
   post_mcp Chained Answered
     \<lparr>mcp_session_id = None, body = Some \<lparr>b_method = JStr ''tools/list'', b_id = JNum 0\<rparr>\<rparr>
     initial_state =
     (\<lparr>session_header = None, handled_by = None,
       reply = JsonRpcError 400 (- 32000) ''Bad Request: No valid session ID provided'' JNull\<rparr>,
      initial_state)"
proof -
  let ?u = "''123e4567-e89b-42d3-a456-426614174000''"
  let ?r1 = "\<lparr>mcp_session_id = Some ?u,
              body = Some \<lparr>b_method = JStr ''initialize'', b_id = JNum 7\<rparr>\<rparr>"
  let ?r2 = "\<lparr>mcp_session_id = None, body = Some \<lparr>b_method = JStr ''tools/list'', b_id = JNum 0\<rparr>\<rparr>"
  have k: "?u \<notin> set object_prototype_keys" by (simp add: object_prototype_keys_def)
  have h1: "(\<exists>k. mcp_session_id ?r1 = Some k \<and> k \<noteq> [] \<and> transports initial_state k = None
                \<and> k \<notin> set object_prototype_keys)
           \<or> ((mcp_session_id ?r1 = None \<or> mcp_session_id ?r1 = Some []) \<and> \<not> is_initialize ?r1)"
    using k by (simp add: initial_state_def)
  have h2: "(\<exists>k. mcp_session_id ?r2 = Some k \<and> k \<noteq> [] \<and> transports initial_state k = None
                \<and> k \<notin> set object_prototype_keys)
           \<or> ((mcp_session_id ?r2 = None \<or> mcp_session_id ?r2 = Some []) \<and> \<not> is_initialize ?r2)"
    by (simp add: is_initialize_def)
  from unbound_post_rejected [OF h1, of Chained Answered]
       unbound_post_rejected [OF h2, of Chained Answered] k
  show ?thesis by (simp add: id_or_null_def)
qed

section \<open>Properties of the tweet tool\<close>

text \<open>
  Claim C9, as amended. For every status and whatever the Twitter call does, both versions of
  \<open>createPost\<close> resolve, and the text the handler of \<open>twitter-X-post\<close> returns begins with
  the colour sequence \<open>ESC[1;32m\<close> followed by \<open>Tweet created successfully:\<close> and \<open>ESC[0m\<close>:
  also when the call failed, the text then going on with the error message, and when no
  client is configured, the text then going on with a made-up tweet of two random numbers.
\<close>

theorem twitter_X_post_reports_success:
  "createPost tw status =
     Inr \<lparr>content = [\<lparr>c_type = ''text'',
           c_text = (case tw status of
                       Inr tweet_id \<Rightarrow> ''Tweet sent successfully: '' @ tweet_id
                     | Inl error \<Rightarrow> ''Error sending tweet: '' @ to_string (e_message error))\<rparr>]\<rparr> \<and>
   twitter_X_post (createPost tw status) =
     Inr \<lparr>content = [\<lparr>c_type = ''text'',
           c_text = esc # ''[1;32mTweet created successfully:'' @ esc # ''[0m '' @
                    (case tw status of
                       Inr tweet_id \<Rightarrow> ''Tweet sent successfully: '' @ tweet_id
                     | Inl error \<Rightarrow> ''Error sending tweet: '' @ to_string (e_message error))
                    @ [newline]\<rparr>]\<rparr> \<and>
   (\<exists>r. createPost_mock twitterClient rnd status = Inr r) \<and>
   (\<exists>rest. twitter_X_post (createPost_mock twitterClient rnd status) =
     Inr \<lparr>content = [\<lparr>c_type = ''text'',
           c_text = esc # ''[1;32mTweet created successfully:'' @ esc # ''[0m '' @ rest\<rparr>]\<rparr>) \<and>
   twitter_X_post (createPost_mock None rnd status) =
     Inr \<lparr>content = [\<lparr>c_type = ''text'',
           c_text = esc # ''[1;32mTweet created successfully:'' @ esc # ''[0m '' @
                    ''Tweet created successfully: Tweet sent successfully: '' @
                    show_nat (floor_random (rnd 0) 1000000000) @
                    show_nat (floor_random (rnd 1) 1000000000) @
                    [newline] @ ''Content: '' @ [CHR 0x22] @ status @ [CHR 0x22] @ [newline]\<rparr>]\<rparr>"
proof -
  have a: "createPost tw status =
     Inr \<lparr>content = [\<lparr>c_type = ''text'',
           c_text = (case tw status of
                       Inr tweet_id \<Rightarrow> ''Tweet sent successfully: '' @ tweet_id
                     | Inl error \<Rightarrow> ''Error sending tweet: '' @ to_string (e_message error))\<rparr>]\<rparr>"
    by (simp add: createPost_def split: sum.splits)
  have b: "twitter_X_post (createPost tw status) =
     Inr \<lparr>content = [\<lparr>c_type = ''text'',
           c_text = esc # ''[1;32mTweet created successfully:'' @ esc # ''[0m '' @
                    (case tw status of
                       Inr tweet_id \<Rightarrow> ''Tweet sent successfully: '' @ tweet_id
                     | Inl error \<Rightarrow> ''Error sending tweet: '' @ to_string (e_message error))
                    @ [newline]\<rparr>]\<rparr>"
    unfolding a
    by (simp add: twitter_X_post_def tweet_heading_def first_text_def split: sum.splits)
  have c: "\<exists>r. createPost_mock twitterClient rnd status = Inr r"
    by (simp add: createPost_mock_def split: option.splits sum.splits)
  then obtain r where r: "createPost_mock twitterClient rnd status = Inr r" ..
  have d: "\<exists>rest. twitter_X_post (createPost_mock twitterClient rnd status) =
     Inr \<lparr>content = [\<lparr>c_type = ''text'',
           c_text = esc # ''[1;32mTweet created successfully:'' @ esc # ''[0m '' @ rest\<rparr>]\<rparr>"
    unfolding r by (simp add: twitter_X_post_def tweet_heading_def)
  have e: "twitter_X_post (createPost_mock None rnd status) =
     Inr \<lparr>content = [\<lparr>c_type = ''text'',
           c_text = esc # ''[1;32mTweet created successfully:'' @ esc # ''[0m '' @
                    ''Tweet created successfully: Tweet sent successfully: '' @
                    show_nat (floor_random (rnd 0) 1000000000) @
                    show_nat (floor_random (rnd 1) 1000000000) @
                    [newline] @ ''Content: '' @ [CHR 0x22] @ status @ [CHR 0x22] @ [newline]\<rparr>]\<rparr>"
    by (simp add: createPost_mock_def mock_tweet_def Let_def twitter_X_post_def tweet_heading_def
          first_text_def)
  from a b c d e show ?thesis by blast
qed

text \<open>
  Claim C9 as stated fails: the text does not begin with \<open>Tweet created successfully:\<close>
  itself, its first character is the escape character of the colour sequence.
\<close>

theorem twitter_X_post_text_begins_with_escape:
  "twitter_X_post
     (Inr \<lparr>content = [\<lparr>c_type = ''text'', c_text = ''Tweet sent successfully: 1''\<rparr>]\<rparr>) =
   Inr \<lparr>content = [\<lparr>c_type = ''text'',
          c_text = CHR 0x1B # ''[1;32mTweet created successfully:'' @
                   CHR 0x1B # ''[0m Tweet sent successfully: 1'' @ [CHR 0x0A]\<rparr>]\<rparr> \<and>
   \<not> startsWith
      (CHR 0x1B # ''[1;32mTweet created successfully:'' @
       CHR 0x1B # ''[0m Tweet sent successfully: 1'' @ [CHR 0x0A])
      ''Tweet created successfully:''"
  by (simp add: twitter_X_post_def tweet_heading_def first_text_def esc_def newline_def
        startsWith_def)

section \<open>Properties of the client\<close>







lemma callTool_fst:
  "fst (callTool rnd params c)
     = fst (fabricate (if connected c then rnd else (\<lambda>i. rnd (i + uuid_draws))) params)"
  by (simp add: callTool_def connect_def split: prod.splits)






section \<open>Properties of the planner\<close>

lemma generateContent_fallback:
  "apiKey g = [] \<or> (\<exists>e. primary ai tools (chatHistory g) = Inl e) \<Longrightarrow>
   generateContent toLowerCase ai tools g = rule_based (userQuery toLowerCase (chatHistory g))"
  by (auto simp: generateContent_def Let_def)

lemma primary_usable:
  "ai history (if functionDeclarations tools \<noteq> [] then Some (functionDeclarations tools) else None)
     = Inr resp \<Longrightarrow>
   candidates resp = Some (cand # cands) \<Longrightarrow> candidate_content cand = Some c \<Longrightarrow>
   content_parts c = Some (part # ps) \<Longrightarrow>
   primary ai tools history = Inr \<lparr>g_functionCall = named_call part, g_text = text_of part\<rparr>"
  by (simp add: primary_def Let_def)

lemma primary_Inr_iff:
  "primary ai tools history = Inr r \<longleftrightarrow>
   (\<exists>resp cand cands c part ps.
      ai history (if functionDeclarations tools \<noteq> [] then Some (functionDeclarations tools) else None)
        = Inr resp \<and>
      candidates resp = Some (cand # cands) \<and> candidate_content cand = Some c \<and>
      content_parts c = Some (part # ps) \<and>
      r = \<lparr>g_functionCall = named_call part, g_text = text_of part\<rparr>)"
  by (auto simp: primary_def Let_def split: sum.splits option.splits list.splits)

lemma rule_based_one_variant:
  "(g_functionCall (rule_based q) = None) \<noteq> (g_text (rule_based q) = None)"
  by (simp add: rule_based_def call_def Let_def)



text \<open>
  Claim C5. With an API key, a model call that resolves with a first candidate whose content
  has a first part makes \<open>generateContent\<close> return what that part holds: its function call,
  under its name and with its arguments (none when it has none), when the call has a name
  that is not empty, and its text. The rule-based proposal is returned when there is no key,
  when the call throws, and when the response has no candidate, no content or no part, and
  only then.
\<close>

theorem model_response_preferred:
  "(apiKey g \<noteq> [] \<and>
    ai (chatHistory g)
       (if functionDeclarations tools \<noteq> [] then Some (functionDeclarations tools) else None)
      = Inr resp \<and>
    candidates resp = Some (cand # cands) \<and> candidate_content cand = Some c \<and>
    content_parts c = Some (part # ps)
    \<longrightarrow> generateContent toLowerCase ai tools g =
          \<lparr>g_functionCall =
             (case functionCall part of
                None \<Rightarrow> None
              | Some fc \<Rightarrow>
                  (case raw_name fc of
                     None \<Rightarrow> None
                   | Some n \<Rightarrow>
                       if n = [] then None
                       else Some \<lparr>name = n,
                                  args = (case raw_args fc of None \<Rightarrow> [] | Some a \<Rightarrow> a)\<rparr>)),
           g_text = text_of part\<rparr>)
   \<and>
   (apiKey g = [] \<or>
    ai (chatHistory g)
       (if functionDeclarations tools \<noteq> [] then Some (functionDeclarations tools) else None)
      = Inl e \<or>
    (ai (chatHistory g)
        (if functionDeclarations tools \<noteq> [] then Some (functionDeclarations tools) else None)
       = Inr resp \<and>
     (candidates resp = None \<or> candidates resp = Some [] \<or>
      (candidates resp = Some (cand # cands) \<and>
       (candidate_content cand = None \<or>
        (candidate_content cand = Some c \<and>
         (content_parts c = None \<or> content_parts c = Some []))))))
    \<longrightarrow> generateContent toLowerCase ai tools g = rule_based (userQuery toLowerCase (chatHistory g)))"
proof (rule conjI; rule impI)
  assume a: "apiKey g \<noteq> [] \<and>
    ai (chatHistory g)
       (if functionDeclarations tools \<noteq> [] then Some (functionDeclarations tools) else None)
      = Inr resp \<and>
    candidates resp = Some (cand # cands) \<and> candidate_content cand = Some c \<and>
    content_parts c = Some (part # ps)"
  then have "primary ai tools (chatHistory g) =
               Inr \<lparr>g_functionCall = named_call part, g_text = text_of part\<rparr>"
    by (simp add: primary_usable)
  with a have "generateContent toLowerCase ai tools g =
                 \<lparr>g_functionCall = named_call part, g_text = text_of part\<rparr>"
    by (simp add: generateContent_def Let_def)
  then show "generateContent toLowerCase ai tools g =
          \<lparr>g_functionCall =
             (case functionCall part of
                None \<Rightarrow> None
              | Some fc \<Rightarrow>
                  (case raw_name fc of
                     None \<Rightarrow> None
                   | Some n \<Rightarrow>
                       if n = [] then None
                       else Some \<lparr>name = n,
                                  args = (case raw_args fc of None \<Rightarrow> [] | Some a \<Rightarrow> a)\<rparr>)),
           g_text = text_of part\<rparr>"
    by (simp add: named_call_def split: option.splits)
next
  assume b: "apiKey g = [] \<or>
    ai (chatHistory g)
       (if functionDeclarations tools \<noteq> [] then Some (functionDeclarations tools) else None)
      = Inl e \<or>
    (ai (chatHistory g)
        (if functionDeclarations tools \<noteq> [] then Some (functionDeclarations tools) else None)
       = Inr resp \<and>
     (candidates resp = None \<or> candidates resp = Some [] \<or>
      (candidates resp = Some (cand # cands) \<and>
       (candidate_content cand = None \<or>
        (candidate_content cand = Some c \<and>
         (content_parts c = None \<or> content_parts c = Some []))))))"
  then have "apiKey g = [] \<or> (\<exists>e. primary ai tools (chatHistory g) = Inl e)"
    by (auto simp: primary_def Let_def)
  then show "generateContent toLowerCase ai tools g
             = rule_based (userQuery toLowerCase (chatHistory g))"
    by (rule generateContent_fallback)
qed

theorem model_response_preferred_witness:
  "apiKey \<lparr>chatHistory = [\<lparr>role = User, parts = [\<lparr>p_text = ''Post repo'', p_type = ''text''\<rparr>]\<rparr>],
           apiKey = ''key''\<rparr> \<noteq> [] \<and>
   generateContent ascii_lower (stub_model adder_call) client_tools
     \<lparr>chatHistory = [\<lparr>role = User, parts = [\<lparr>p_text = ''Post repo'', p_type = ''text''\<rparr>]\<rparr>],
      apiKey = ''key''\<rparr> =
     \<lparr>g_functionCall = Some \<lparr>name = ''adder'', args = [(''a'', JNum 2), (''b'', JNum 3)]\<rparr>,
      g_text = None\<rparr> \<and>
   generateContent ascii_lower
     (stub_model \<lparr>functionCall = Some \<lparr>raw_name = Some [], raw_args = None\<rparr>,
                  text_of = Some ''Which repository?''\<rparr>) client_tools
     \<lparr>chatHistory = [\<lparr>role = User, parts = [\<lparr>p_text = ''Post repo'', p_type = ''text''\<rparr>]\<rparr>],
      apiKey = ''key''\<rparr> =
     \<lparr>g_functionCall = None, g_text = Some ''Which repository?''\<rparr> \<and>
   generateContent ascii_lower (stub_model adder_call) client_tools
     \<lparr>chatHistory = [\<lparr>role = User, parts = [\<lparr>p_text = ''Post repo'', p_type = ''text''\<rparr>]\<rparr>],
      apiKey = []\<rparr> =
     \<lparr>g_functionCall = Some \<lparr>name = ''github-repo-info'',
         args = [(''owner'', JStr ''EcoLash''), (''repo'', JStr ''Compilers'')]\<rparr>,
      g_text = None\<rparr>"
proof -
  let ?part = "\<lparr>functionCall = Some \<lparr>raw_name = Some [], raw_args = None\<rparr>,
                text_of = Some ''Which repository?''\<rparr>"
  let ?h = "[\<lparr>role = User, parts = [\<lparr>p_text = ''Post repo'', p_type = ''text''\<rparr>]\<rparr>]"
  let ?d = "if functionDeclarations client_tools \<noteq> []
            then Some (functionDeclarations client_tools) else None"
  let ?resp = "\<lambda>part. \<lparr>candidates = Some [\<lparr>candidate_content = Some \<lparr>content_parts = Some [part]\<rparr>\<rparr>]\<rparr>"
  have q: "userQuery ascii_lower ?h = ''post repo''" by code_simp
  have rb: "rule_based ''post repo'' =
     \<lparr>g_functionCall = Some \<lparr>name = ''github-repo-info'',
         args = [(''owner'', JStr ''EcoLash''), (''repo'', JStr ''Compilers'')]\<rparr>,
      g_text = None\<rparr>"
    by code_simp
  have s: "\<And>part. stub_model part ?h ?d = Inr (?resp part)" by (simp add: stub_model_def)
  from model_response_preferred
         [of "\<lparr>chatHistory = ?h, apiKey = ''key''\<rparr>" "stub_model adder_call" client_tools
             "?resp adder_call" "\<lparr>candidate_content = Some \<lparr>content_parts = Some [adder_call]\<rparr>\<rparr>"
             "[]" "\<lparr>content_parts = Some [adder_call]\<rparr>" adder_call "[]" ascii_lower]
       s [of adder_call]
  have one: "generateContent ascii_lower (stub_model adder_call) client_tools
               \<lparr>chatHistory = ?h, apiKey = ''key''\<rparr>
             = \<lparr>g_functionCall = Some \<lparr>name = ''adder'', args = [(''a'', JNum 2), (''b'', JNum 3)]\<rparr>,
                g_text = None\<rparr>"
    by (simp add: adder_call_def)
  from model_response_preferred
         [of "\<lparr>chatHistory = ?h, apiKey = ''key''\<rparr>" "stub_model ?part" client_tools
             "?resp ?part" "\<lparr>candidate_content = Some \<lparr>content_parts = Some [?part]\<rparr>\<rparr>"
             "[]" "\<lparr>content_parts = Some [?part]\<rparr>" ?part "[]" ascii_lower]
       s [of ?part]
  have two: "generateContent ascii_lower (stub_model ?part) client_tools
               \<lparr>chatHistory = ?h, apiKey = ''key''\<rparr>
             = \<lparr>g_functionCall = None, g_text = Some ''Which repository?''\<rparr>"
    by simp
  from model_response_preferred
         [of "\<lparr>chatHistory = ?h, apiKey = []\<rparr>" "stub_model adder_call" client_tools]
  have "generateContent ascii_lower (stub_model adder_call) client_tools
          \<lparr>chatHistory = ?h, apiKey = []\<rparr> = rule_based (userQuery ascii_lower ?h)"
    by simp
  then have three: "generateContent ascii_lower (stub_model adder_call) client_tools
          \<lparr>chatHistory = ?h, apiKey = []\<rparr> =
     \<lparr>g_functionCall = Some \<lparr>name = ''github-repo-info'',
         args = [(''owner'', JStr ''EcoLash''), (''repo'', JStr ''Compilers'')]\<rparr>,
      g_text = None\<rparr>"
    unfolding q rb .
  from one two three show ?thesis by simp
qed

text \<open>
  Claim C4, as amended. A proposal made in degraded mode has exactly one of the two variants.
  A proposal has both only when it comes from the model, whose first part then holds both a
  named function call and a text: \<open>generateContent\<close> passes the two members on as they are.
\<close>

theorem proposal_variants:
  "((apiKey g = [] \<or> (\<exists>e. primary ai tools (chatHistory g) = Inl e))
      \<longrightarrow> (g_functionCall (generateContent toLowerCase ai tools g) = None)
           \<noteq> (g_text (generateContent toLowerCase ai tools g) = None))
   \<and>
   (g_functionCall (generateContent toLowerCase ai tools g) \<noteq> None \<and> g_text (generateContent toLowerCase ai tools g) \<noteq> None
      \<longrightarrow> apiKey g \<noteq> [] \<and>
          (\<exists>resp cand cands c part ps.
             ai (chatHistory g)
                (if functionDeclarations tools \<noteq> [] then Some (functionDeclarations tools) else None)
               = Inr resp \<and>
             candidates resp = Some (cand # cands) \<and> candidate_content cand = Some c \<and>
             content_parts c = Some (part # ps) \<and>
             named_call part \<noteq> None \<and> text_of part \<noteq> None))"
proof (rule conjI; rule impI)
  assume "apiKey g = [] \<or> (\<exists>e. primary ai tools (chatHistory g) = Inl e)"
  then have "generateContent toLowerCase ai tools g = rule_based (userQuery toLowerCase (chatHistory g))"
    by (rule generateContent_fallback)
  then show "(g_functionCall (generateContent toLowerCase ai tools g) = None)
           \<noteq> (g_text (generateContent toLowerCase ai tools g) = None)"
    using rule_based_one_variant [of "userQuery toLowerCase (chatHistory g)"] by simp
next
  assume both: "g_functionCall (generateContent toLowerCase ai tools g) \<noteq> None
                \<and> g_text (generateContent toLowerCase ai tools g) \<noteq> None"
  show "apiKey g \<noteq> [] \<and>
          (\<exists>resp cand cands c part ps.
             ai (chatHistory g)
                (if functionDeclarations tools \<noteq> [] then Some (functionDeclarations tools) else None)
               = Inr resp \<and>
             candidates resp = Some (cand # cands) \<and> candidate_content cand = Some c \<and>
             content_parts c = Some (part # ps) \<and>
             named_call part \<noteq> None \<and> text_of part \<noteq> None)"
  proof (cases "apiKey g = [] \<or> (\<exists>e. primary ai tools (chatHistory g) = Inl e)")
    case True
    then have "generateContent toLowerCase ai tools g = rule_based (userQuery toLowerCase (chatHistory g))"
      by (rule generateContent_fallback)
    with both rule_based_one_variant [of "userQuery toLowerCase (chatHistory g)"] show ?thesis by auto
  next
    case False
    then have k: "apiKey g \<noteq> []" by simp
    from False obtain r where r: "primary ai tools (chatHistory g) = Inr r"
      by (cases "primary ai tools (chatHistory g)") auto
    with k have gc: "generateContent toLowerCase ai tools g = r"
      by (simp add: generateContent_def Let_def)
    from r obtain resp cand cands c part ps where
      u: "ai (chatHistory g)
             (if functionDeclarations tools \<noteq> [] then Some (functionDeclarations tools) else None)
            = Inr resp"
         "candidates resp = Some (cand # cands)" "candidate_content cand = Some c"
         "content_parts c = Some (part # ps)"
         "r = \<lparr>g_functionCall = named_call part, g_text = text_of part\<rparr>"
      unfolding primary_Inr_iff by blast
    from both gc u(5) have "named_call part \<noteq> None \<and> text_of part \<noteq> None" by simp
    with k u(1-4) show ?thesis by blast
  qed
qed

theorem proposal_variants_witness:
  "(g_functionCall (generateContent ascii_lower (stub_model \<lparr>functionCall = None, text_of = None\<rparr>) []
       \<lparr>chatHistory = [], apiKey = []\<rparr>) = None)
   \<noteq> (g_text (generateContent ascii_lower (stub_model \<lparr>functionCall = None, text_of = None\<rparr>) []
       \<lparr>chatHistory = [], apiKey = []\<rparr>) = None) \<and>
   g_functionCall (generateContent ascii_lower
     (stub_model \<lparr>functionCall = Some \<lparr>raw_name = Some ''adder'', raw_args = None\<rparr>,
                  text_of = Some ''Adding''\<rparr>) []
     \<lparr>chatHistory = [], apiKey = ''key''\<rparr>) \<noteq> None \<and>
   named_call \<lparr>functionCall = Some \<lparr>raw_name = Some ''adder'', raw_args = None\<rparr>,
               text_of = Some ''Adding''\<rparr> \<noteq> None"
proof -
  let ?g0 = "\<lparr>chatHistory = [], apiKey = []\<rparr>"
  let ?p0 = "\<lparr>functionCall = None, text_of = None\<rparr>"
  let ?g1 = "\<lparr>chatHistory = [], apiKey = ''key''\<rparr>"
  let ?p1 = "\<lparr>functionCall = Some \<lparr>raw_name = Some ''adder'', raw_args = None\<rparr>,
              text_of = Some ''Adding''\<rparr>"
  from proposal_variants [of ?g0 "stub_model ?p0" "[]"]
  have one: "(g_functionCall (generateContent ascii_lower (stub_model ?p0) [] ?g0) = None)
             \<noteq> (g_text (generateContent ascii_lower (stub_model ?p0) [] ?g0) = None)"
    by simp
  have both: "g_functionCall (generateContent ascii_lower (stub_model ?p1) [] ?g1) \<noteq> None
              \<and> g_text (generateContent ascii_lower (stub_model ?p1) [] ?g1) \<noteq> None"
    by (simp add: generateContent_def primary_def stub_model_def named_call_def Let_def
          functionDeclarations_def)
  with proposal_variants [of ?g1 "stub_model ?p1" "[]"]
  have "\<exists>resp cand cands c part ps.
          stub_model ?p1 (chatHistory ?g1)
            (if functionDeclarations [] \<noteq> [] then Some (functionDeclarations []) else None)
            = Inr resp \<and>
          candidates resp = Some (cand # cands) \<and> candidate_content cand = Some c \<and>
          content_parts c = Some (part # ps) \<and>
          named_call part \<noteq> None \<and> text_of part \<noteq> None"
    by blast
  then have two: "named_call ?p1 \<noteq> None"
    by (auto simp: stub_model_def)
  from one both two show ?thesis by blast
qed

text \<open>
  Claim C4 as stated fails: a model whose first part holds a function call and a text gets
  both into the proposal.
\<close>

theorem proposal_both_variants:
  "generateContent ascii_lower
     (stub_model \<lparr>functionCall = Some \<lparr>raw_name = Some ''adder'',
                                       raw_args = Some [(''a'', JNum 2), (''b'', JNum 3)]\<rparr>,
                  text_of = Some ''Adding the numbers''\<rparr>)
     client_tools
     \<lparr>chatHistory = [\<lparr>role = User, parts = [\<lparr>p_text = ''add 2 and 3'', p_type = ''text''\<rparr>]\<rparr>],
      apiKey = ''key''\<rparr> =
   \<lparr>g_functionCall = Some \<lparr>name = ''adder'', args = [(''a'', JNum 2), (''b'', JNum 3)]\<rparr>,
    g_text = Some ''Adding the numbers''\<rparr>"
  by (simp add: generateContent_def primary_def stub_model_def named_call_def Let_def)

section \<open>Properties of the orchestration loop\<close>

lemma answer_no_response:
  assumes "client st = Some c" and "isConnected st"
    and "g_functionCall (generateContent (env_lower env) (env_ai env) (env_tools env) (addUserMessage msg (gemini st))) = None"
    and "g_text (generateContent (env_lower env) (env_ai env) (env_tools env) (addUserMessage msg (gemini st))) = None
         \<or> g_text (generateContent (env_lower env) (env_ai env) (env_tools env) (addUserMessage msg (gemini st))) = Some []"
  shows "answer env msg st =
           (Some (Error ''No response from Gemini''), st\<lparr>gemini := addUserMessage msg (gemini st)\<rparr>)"
  using assms by (auto simp: answer_def Let_def)

lemma answer_history:
  "\<exists>t. chatHistory (gemini (snd (answer env msg st))) = chatHistory (gemini st)
      \<or> chatHistory (gemini (snd (answer env msg st))) =
           chatHistory (gemini st) @ [\<lparr>role = User, parts = [\<lparr>p_text = msg, p_type = ''text''\<rparr>]\<rparr>]
      \<or> chatHistory (gemini (snd (answer env msg st))) =
           chatHistory (gemini st) @ [\<lparr>role = User, parts = [\<lparr>p_text = msg, p_type = ''text''\<rparr>]\<rparr>,
                                      \<lparr>role = Model, parts = [\<lparr>p_text = t, p_type = ''text''\<rparr>]\<rparr>]"
  by (auto simp: answer_def Let_def addUserMessage_def addModelMessage_def
           split: option.splits prod.splits sum.splits)

lemma handleSendMessage_gemini:
  "gemini (handleSendMessage env msg st) =
     gemini (snd (answer env msg (st\<lparr>messages := messages st @ [\<lparr>message = msg, isUser = True,
                                       timestamp = time_sent env\<rparr>], isLoading := True\<rparr>)))"
  by (simp add: handleSendMessage_def Let_def split: prod.splits option.splits)

lemma adder_echo:
  "echo_text \<lparr>p_name = ''adder'', p_arguments = JObj [(''a'', JNum 2), (''b'', JNum 3)]\<rparr> =
     ''Called tool adder with arguments: {'' @ [CHR 0x22] @ ''a'' @ [CHR 0x22] @ '':2,''
       @ [CHR 0x22] @ ''b'' @ [CHR 0x22] @ '':3}''"
  by (simp add: echo_text_def json_quote_def json_escape_def show_int_def show_nat.simps)

lemma adder_proposed:
  "apiKey g \<noteq> [] \<Longrightarrow>
   generateContent toLowerCase (stub_model adder_call) tools g =
     \<lparr>g_functionCall = Some \<lparr>name = ''adder'', args = [(''a'', JNum 2), (''b'', JNum 3)]\<rparr>,
      g_text = None\<rparr>"
  by (simp add: generateContent_def primary_def stub_model_def adder_call_def named_call_def Let_def)

lemma adder_fabricated:
  "fst (callTool r \<lparr>p_name = ''adder'', p_arguments = JObj [(''a'', JNum 2), (''b'', JNum 3)]\<rparr> c) =
     Inr \<lparr>m_content = [\<lparr>c_type = ''text'',
           c_text = ''Called tool adder with arguments: {'' @ [CHR 0x22] @ ''a'' @ [CHR 0x22]
                    @ '':2,'' @ [CHR 0x22] @ ''b'' @ [CHR 0x22] @ '':3}''\<rparr>]\<rparr>"
  by (simp add: callTool_fst fabricate_def adder_echo)

text \<open>
  Claim C6. When the client is connected and the proposal has no function call and no text
  (or an empty one), \<open>handleSendMessage\<close> shows the error \<open>No response from Gemini\<close> and the
  conversation history holds the user's turn, appended before the planner was asked, and
  nothing more. In every turn the history ends up as it was, or with the user's turn, or
  with the user's turn and one model turn: at most one outcome appends to it.
\<close>

theorem no_response_fails_turn:
  "(client st = Some c \<and> isConnected st \<and>
    g_functionCall (generateContent (env_lower env) (env_ai env) (env_tools env) (addUserMessage msg (gemini st))) = None \<and>
    (g_text (generateContent (env_lower env) (env_ai env) (env_tools env) (addUserMessage msg (gemini st))) = None
     \<or> g_text (generateContent (env_lower env) (env_ai env) (env_tools env) (addUserMessage msg (gemini st))) = Some [])
    \<longrightarrow>
    handleSendMessage env msg st =
      st\<lparr>messages := messages st
            @ [\<lparr>message = msg, isUser = True, timestamp = time_sent env\<rparr>,
               \<lparr>message = ''Error: No response from Gemini'', isUser = False,
                timestamp = time_answered env\<rparr>],
         isLoading := False,
         gemini := (gemini st)\<lparr>chatHistory := chatHistory (gemini st)
            @ [\<lparr>role = User, parts = [\<lparr>p_text = msg, p_type = ''text''\<rparr>]\<rparr>]\<rparr>\<rparr>)
   \<and>
   (\<exists>t. chatHistory (gemini (handleSendMessage env msg st)) = chatHistory (gemini st)
      \<or> chatHistory (gemini (handleSendMessage env msg st)) =
           chatHistory (gemini st) @ [\<lparr>role = User, parts = [\<lparr>p_text = msg, p_type = ''text''\<rparr>]\<rparr>]
      \<or> chatHistory (gemini (handleSendMessage env msg st)) =
           chatHistory (gemini st) @ [\<lparr>role = User, parts = [\<lparr>p_text = msg, p_type = ''text''\<rparr>]\<rparr>,
                                      \<lparr>role = Model, parts = [\<lparr>p_text = t, p_type = ''text''\<rparr>]\<rparr>])"
proof (rule conjI)
  let ?st0 = "st\<lparr>messages := messages st @ [\<lparr>message = msg, isUser = True,
                                       timestamp = time_sent env\<rparr>], isLoading := True\<rparr>"
  show "client st = Some c \<and> isConnected st \<and>
    g_functionCall (generateContent (env_lower env) (env_ai env) (env_tools env) (addUserMessage msg (gemini st))) = None \<and>
    (g_text (generateContent (env_lower env) (env_ai env) (env_tools env) (addUserMessage msg (gemini st))) = None
     \<or> g_text (generateContent (env_lower env) (env_ai env) (env_tools env) (addUserMessage msg (gemini st))) = Some [])
    \<longrightarrow>
    handleSendMessage env msg st =
      st\<lparr>messages := messages st
            @ [\<lparr>message = msg, isUser = True, timestamp = time_sent env\<rparr>,
               \<lparr>message = ''Error: No response from Gemini'', isUser = False,
                timestamp = time_answered env\<rparr>],
         isLoading := False,
         gemini := (gemini st)\<lparr>chatHistory := chatHistory (gemini st)
            @ [\<lparr>role = User, parts = [\<lparr>p_text = msg, p_type = ''text''\<rparr>]\<rparr>]\<rparr>\<rparr>"
  proof (rule impI)
    assume h: "client st = Some c \<and> isConnected st \<and>
      g_functionCall (generateContent (env_lower env) (env_ai env) (env_tools env) (addUserMessage msg (gemini st))) = None \<and>
      (g_text (generateContent (env_lower env) (env_ai env) (env_tools env) (addUserMessage msg (gemini st))) = None
       \<or> g_text (generateContent (env_lower env) (env_ai env) (env_tools env) (addUserMessage msg (gemini st))) = Some [])"
    then have "answer env msg ?st0 =
           (Some (Error ''No response from Gemini''), ?st0\<lparr>gemini := addUserMessage msg (gemini ?st0)\<rparr>)"
      by (intro answer_no_response [where c = c]) simp_all
    then show "handleSendMessage env msg st =
      st\<lparr>messages := messages st
            @ [\<lparr>message = msg, isUser = True, timestamp = time_sent env\<rparr>,
               \<lparr>message = ''Error: No response from Gemini'', isUser = False,
                timestamp = time_answered env\<rparr>],
         isLoading := False,
         gemini := (gemini st)\<lparr>chatHistory := chatHistory (gemini st)
            @ [\<lparr>role = User, parts = [\<lparr>p_text = msg, p_type = ''text''\<rparr>]\<rparr>]\<rparr>\<rparr>"
      by (simp add: handleSendMessage_def Let_def addUserMessage_def)
  qed
next
  let ?st0 = "st\<lparr>messages := messages st @ [\<lparr>message = msg, isUser = True,
                                       timestamp = time_sent env\<rparr>], isLoading := True\<rparr>"
  from answer_history [of env msg ?st0]
  show "\<exists>t. chatHistory (gemini (handleSendMessage env msg st)) = chatHistory (gemini st)
      \<or> chatHistory (gemini (handleSendMessage env msg st)) =
           chatHistory (gemini st) @ [\<lparr>role = User, parts = [\<lparr>p_text = msg, p_type = ''text''\<rparr>]\<rparr>]
      \<or> chatHistory (gemini (handleSendMessage env msg st)) =
           chatHistory (gemini st) @ [\<lparr>role = User, parts = [\<lparr>p_text = msg, p_type = ''text''\<rparr>]\<rparr>,
                                      \<lparr>role = Model, parts = [\<lparr>p_text = t, p_type = ''text''\<rparr>]\<rparr>]"
    unfolding handleSendMessage_gemini by simp
qed

theorem no_response_fails_turn_witness:
  "client (initial_chat ''key'' connected_client ''09:59:59'') = Some connected_client \<and>
   isConnected (initial_chat ''key'' connected_client ''09:59:59'') \<and>
   g_functionCall (generateContent ascii_lower (stub_model \<lparr>functionCall = None, text_of = None\<rparr>) client_tools
      (addUserMessage ''hello'' (gemini (initial_chat ''key'' connected_client ''09:59:59'')))) = None \<and>
   g_text (generateContent ascii_lower (stub_model \<lparr>functionCall = None, text_of = None\<rparr>) client_tools
      (addUserMessage ''hello'' (gemini (initial_chat ''key'' connected_client ''09:59:59'')))) = None \<and>
   handleSendMessage (stub_surroundings \<lparr>functionCall = None, text_of = None\<rparr>) ''hello''
     (initial_chat ''key'' connected_client ''09:59:59'') =
     \<lparr>messages = [\<lparr>message = ''Hello! How can I help you today?'', isUser = False,
                   timestamp = ''09:59:59''\<rparr>,
                  \<lparr>message = ''hello'', isUser = True, timestamp = ''10:00:00''\<rparr>,
                  \<lparr>message = ''Error: No response from Gemini'', isUser = False,
                   timestamp = ''10:00:01''\<rparr>],
      isLoading = False,
      gemini = \<lparr>chatHistory =
                   [\<lparr>role = User, parts = [\<lparr>p_text = ''hello'', p_type = ''text''\<rparr>]\<rparr>],
                apiKey = ''key''\<rparr>,
      client = Some connected_client,
      isConnected = True\<rparr>"
proof -
  let ?st = "initial_chat ''key'' connected_client ''09:59:59''"
  let ?part = "\<lparr>functionCall = None, text_of = None\<rparr>"
  let ?env = "stub_surroundings ?part"
  let ?g1 = "addUserMessage ''hello'' (gemini ?st)"
  have gc: "generateContent ascii_lower (stub_model ?part) client_tools ?g1 =
              \<lparr>g_functionCall = None, g_text = None\<rparr>"
    by (simp add: generateContent_def primary_def stub_model_def named_call_def Let_def
          addUserMessage_def initial_chat_def)
  have h1: "client ?st = Some connected_client" by (simp add: initial_chat_def)
  have h2: "isConnected ?st" by (simp add: initial_chat_def)
  have h3: "g_functionCall (generateContent (env_lower ?env) (env_ai ?env) (env_tools ?env) ?g1) = None"
    by (simp add: stub_surroundings_def gc)
  have h4: "g_text (generateContent (env_lower ?env) (env_ai ?env) (env_tools ?env) ?g1) = None"
    by (simp add: stub_surroundings_def gc)
  from no_response_fails_turn [of ?st connected_client ?env "''hello''"] h1 h2 h3 h4
  have "handleSendMessage ?env ''hello'' ?st =
      ?st\<lparr>messages := messages ?st
            @ [\<lparr>message = ''hello'', isUser = True, timestamp = time_sent ?env\<rparr>,
               \<lparr>message = ''Error: No response from Gemini'', isUser = False,
                timestamp = time_answered ?env\<rparr>],
         isLoading := False,
         gemini := (gemini ?st)\<lparr>chatHistory := chatHistory (gemini ?st)
            @ [\<lparr>role = User, parts = [\<lparr>p_text = ''hello'', p_type = ''text''\<rparr>]\<rparr>]\<rparr>\<rparr>"
    by blast
  then have r: "handleSendMessage ?env ''hello'' ?st =
     \<lparr>messages = [\<lparr>message = ''Hello! How can I help you today?'', isUser = False,
                   timestamp = ''09:59:59''\<rparr>,
                  \<lparr>message = ''hello'', isUser = True, timestamp = ''10:00:00''\<rparr>,
                  \<lparr>message = ''Error: No response from Gemini'', isUser = False,
                   timestamp = ''10:00:01''\<rparr>],
      isLoading = False,
      gemini = \<lparr>chatHistory =
                   [\<lparr>role = User, parts = [\<lparr>p_text = ''hello'', p_type = ''text''\<rparr>]\<rparr>],
                apiKey = ''key''\<rparr>,
      client = Some connected_client,
      isConnected = True\<rparr>"
    by (simp add: initial_chat_def stub_surroundings_def)
  show ?thesis using h1 h2 gc r by simp
qed

text \<open>
  Claim C7, as amended. With a model stub proposing \<open>adder({a: 2, b: 3})\<close>, an API key, a
  connected client and an empty history, one call of \<open>handleSendMessage\<close> with the text
  \<open>add 2 and 3\<close> ends with an assistant message that repeats the call, as the client
  fabricates its answer and adds nothing up, and with a history of the two entries user and
  tool result.
\<close>

theorem adder_turn_echoes:
  assumes "client st = Some c" and "isConnected st" and "apiKey (gemini st) \<noteq> []"
    and "chatHistory (gemini st) = []" and "env_ai env = stub_model adder_call"
  shows "chatHistory (gemini (handleSendMessage env ''add 2 and 3'' st)) =
           [\<lparr>role = User, parts = [\<lparr>p_text = ''add 2 and 3'', p_type = ''text''\<rparr>]\<rparr>,
            \<lparr>role = Model,
             parts = [\<lparr>p_text = ''Called tool adder with arguments: {'' @ [CHR 0x22] @ ''a''
                        @ [CHR 0x22] @ '':2,'' @ [CHR 0x22] @ ''b'' @ [CHR 0x22] @ '':3}'',
                      p_type = ''text''\<rparr>]\<rparr>] \<and>
         messages (handleSendMessage env ''add 2 and 3'' st) =
           messages st @
           [\<lparr>message = ''add 2 and 3'', isUser = True, timestamp = time_sent env\<rparr>,
            \<lparr>message = ''Called tool adder with arguments: {'' @ [CHR 0x22] @ ''a''
                        @ [CHR 0x22] @ '':2,'' @ [CHR 0x22] @ ''b'' @ [CHR 0x22] @ '':3}'',
             isUser = False, timestamp = time_answered env\<rparr>]"
proof -
  let ?g1 = "addUserMessage ''add 2 and 3'' (gemini st)"
  let ?p = "\<lparr>p_name = ''adder'', p_arguments = JObj [(''a'', JNum 2), (''b'', JNum 3)]\<rparr>"
  have k: "apiKey ?g1 \<noteq> []" using assms(3) by (simp add: addUserMessage_def)
  have gc: "generateContent (env_lower env) (env_ai env) (env_tools env) ?g1 =
     \<lparr>g_functionCall = Some \<lparr>name = ''adder'', args = [(''a'', JNum 2), (''b'', JNum 3)]\<rparr>,
      g_text = None\<rparr>"
    unfolding assms(5) using k by (rule adder_proposed)
  obtain res c1 es where ct: "callTool (env_rnd env) ?p c = (res, c1, es)"
    by (cases "callTool (env_rnd env) ?p c")
  with adder_fabricated [of "env_rnd env" c]
  have res: "res = Inr \<lparr>m_content = [\<lparr>c_type = ''text'',
           c_text = ''Called tool adder with arguments: {'' @ [CHR 0x22] @ ''a'' @ [CHR 0x22]
                    @ '':2,'' @ [CHR 0x22] @ ''b'' @ [CHR 0x22] @ '':3}''\<rparr>]\<rparr>"
    by simp
  show ?thesis
    using assms(1,2,4) gc ct res
    by (simp add: handleSendMessage_def answer_def Let_def addUserMessage_def addModelMessage_def)
qed

theorem adder_turn_echoes_witness:
  "client (initial_chat ''key'' connected_client ''09:59:59'') = Some connected_client \<and>
   apiKey (gemini (initial_chat ''key'' connected_client ''09:59:59'')) \<noteq> [] \<and>
   chatHistory (gemini (handleSendMessage (stub_surroundings adder_call) ''add 2 and 3''
                          (initial_chat ''key'' connected_client ''09:59:59''))) =
     [\<lparr>role = User, parts = [\<lparr>p_text = ''add 2 and 3'', p_type = ''text''\<rparr>]\<rparr>,
      \<lparr>role = Model,
       parts = [\<lparr>p_text = ''Called tool adder with arguments: {'' @ [CHR 0x22] @ ''a''
                  @ [CHR 0x22] @ '':2,'' @ [CHR 0x22] @ ''b'' @ [CHR 0x22] @ '':3}'',
                p_type = ''text''\<rparr>]\<rparr>]"
proof -
  let ?st = "initial_chat ''key'' connected_client ''09:59:59''"
  have h1: "client ?st = Some connected_client" by (simp add: initial_chat_def)
  have h2: "isConnected ?st" by (simp add: initial_chat_def)
  have h3: "apiKey (gemini ?st) \<noteq> []" by (simp add: initial_chat_def)
  have h4: "chatHistory (gemini ?st) = []" by (simp add: initial_chat_def)
  have h5: "env_ai (stub_surroundings adder_call) = stub_model adder_call"
    by (simp add: stub_surroundings_def)
  from adder_turn_echoes [OF h1 h2 h3 h4 h5] h1 h3 show ?thesis by blast
qed

text \<open>
  Claim C7 as stated fails: in that scenario the assistant's text does not contain \<open>5\<close>,
  and the history has 2 entries, not 3.
\<close>

theorem adder_turn_no_sum_two_entries:
  "message (last (messages (handleSendMessage (stub_surroundings adder_call) ''add 2 and 3''
                              (initial_chat ''key'' connected_client ''09:59:59'')))) =
     ''Called tool adder with arguments: {'' @ [CHR 0x22] @ ''a'' @ [CHR 0x22] @ '':2,''
       @ [CHR 0x22] @ ''b'' @ [CHR 0x22] @ '':3}'' \<and>
   \<not> includes_str
       (''Called tool adder with arguments: {'' @ [CHR 0x22] @ ''a'' @ [CHR 0x22] @ '':2,''
          @ [CHR 0x22] @ ''b'' @ [CHR 0x22] @ '':3}'') ''5'' \<and>
   length (chatHistory (gemini (handleSendMessage (stub_surroundings adder_call) ''add 2 and 3''
                                  (initial_chat ''key'' connected_client ''09:59:59'')))) = 2"
proof -
  let ?st = "initial_chat ''key'' connected_client ''09:59:59''"
  let ?env = "stub_surroundings adder_call"
  have gc: "generateContent ascii_lower (stub_model adder_call) client_tools
              \<lparr>chatHistory = [\<lparr>role = User, parts = [\<lparr>p_text = ''add 2 and 3'', p_type = ''text''\<rparr>]\<rparr>],
               apiKey = ''key''\<rparr> =
     \<lparr>g_functionCall = Some \<lparr>name = ''adder'', args = [(''a'', JNum 2), (''b'', JNum 3)]\<rparr>,
      g_text = None\<rparr>"
    by (simp add: generateContent_def primary_def stub_model_def adder_call_def named_call_def Let_def)
  have e: "echo_text \<lparr>p_name = ''adder'', p_arguments = JObj [(''a'', JNum 2), (''b'', JNum 3)]\<rparr> =
     ''Called tool adder with arguments: {'' @ [CHR 0x22] @ ''a'' @ [CHR 0x22] @ '':2,''
       @ [CHR 0x22] @ ''b'' @ [CHR 0x22] @ '':3}''"
    by (simp add: echo_text_def json_quote_def json_escape_def show_int_def show_nat.simps)
  have run: "handleSendMessage ?env ''add 2 and 3'' ?st =
     \<lparr>messages = [\<lparr>message = ''Hello! How can I help you today?'', isUser = False,
                   timestamp = ''09:59:59''\<rparr>,
                  \<lparr>message = ''add 2 and 3'', isUser = True, timestamp = ''10:00:00''\<rparr>,
                  \<lparr>message = ''Called tool adder with arguments: {'' @ [CHR 0x22] @ ''a''
                     @ [CHR 0x22] @ '':2,'' @ [CHR 0x22] @ ''b'' @ [CHR 0x22] @ '':3}'',
                   isUser = False, timestamp = ''10:00:01''\<rparr>],
      isLoading = False,
      gemini = \<lparr>chatHistory =
         [\<lparr>role = User, parts = [\<lparr>p_text = ''add 2 and 3'', p_type = ''text''\<rparr>]\<rparr>,
          \<lparr>role = Model,
           parts = [\<lparr>p_text = ''Called tool adder with arguments: {'' @ [CHR 0x22] @ ''a''
                      @ [CHR 0x22] @ '':2,'' @ [CHR 0x22] @ ''b'' @ [CHR 0x22] @ '':3}'',
                    p_type = ''text''\<rparr>]\<rparr>],
         apiKey = ''key''\<rparr>,
      client = Some connected_client,
      isConnected = True\<rparr>"
    by (simp add: handleSendMessage_def answer_def Let_def initial_chat_def stub_surroundings_def
          addUserMessage_def addModelMessage_def gc callTool_def connected_client_def
          fabricate_def e)
  have no5: "\<not> includes_str
       (''Called tool adder with arguments: {'' @ [CHR 0x22] @ ''a'' @ [CHR 0x22] @ '':2,''
          @ [CHR 0x22] @ ''b'' @ [CHR 0x22] @ '':3}'') ''5''"
    by (simp add: startsWith_def)
  show ?thesis unfolding run using no5 by simp
qed

end
